theory Spec2Isabelle
  imports Complex_Main "HOL-Library.Word"
begin

section \<open>Conventions of the embedding\<close>

text \<open>
  The renderer of \<^verbatim>\<open>src/nerf/renderer.py\<close> computes on torch tensors of 32-bit floats.
  The embedding reads every float as a real number (no rounding, no NaN, no infinity), a
  tensor as a list (nested once per dimension), a Python integer as an \<open>int\<close>, and a
  raised exception as the \<open>Inl\<close> branch of a sum. Randomness (\<^verbatim>\<open>torch.rand\<close>,
  \<^verbatim>\<open>torch.randint\<close>) and the external collaborators (the density/colour field, the
  \<^verbatim>\<open>raymarching\<close> kernels) enter as parameters of the functions that use them.
\<close>

datatype error =
    AssertionError
  | RuntimeError
  | ZeroDivisionError
  | ValueError
  | AttributeError
  | IndexError

text \<open>The hard-coded constants of the source.\<close>

definition pdf_eps :: real where
  "pdf_eps = 1 / 100000" \<comment> \<open>\<^verbatim>\<open>1e-5\<close> in \<^verbatim>\<open>sample_pdf\<close>\<close>

definition trans_eps :: real where
  "trans_eps = 1 / 10 ^ 15" \<comment> \<open>\<^verbatim>\<open>1e-15\<close> in \<^verbatim>\<open>alphas_shifted\<close>\<close>

definition mask_thresh :: real where
  "mask_thresh = 1 / 10000" \<comment> \<open>\<^verbatim>\<open>1e-4\<close>, "hard coded"\<close>

section \<open>Tensor helpers\<close>

text \<open>\<^verbatim>\<open>torch.linspace(a, b, steps)\<close> for \<open>steps \<ge> 0\<close>; one step gives \<open>[a]\<close>.\<close>

definition linspace :: "real \<Rightarrow> real \<Rightarrow> nat \<Rightarrow> real list" where
  "linspace a b steps =
     (if steps = 1 then [a]
      else map (\<lambda>i. a + (b - a) * real i / real (steps - 1)) [0..<steps])"

text \<open>\<^verbatim>\<open>torch.cumsum(xs, -1)\<close> and \<^verbatim>\<open>torch.cumprod(xs, -1)\<close>.\<close>

fun cumsum_from :: "real \<Rightarrow> real list \<Rightarrow> real list" where
  "cumsum_from acc [] = []"
| "cumsum_from acc (x # xs) = (acc + x) # cumsum_from (acc + x) xs"

definition cumsum :: "real list \<Rightarrow> real list" where
  "cumsum xs = cumsum_from 0 xs"

fun cumprod_from :: "real \<Rightarrow> real list \<Rightarrow> real list" where
  "cumprod_from acc [] = []"
| "cumprod_from acc (x # xs) = (acc * x) # cumprod_from (acc * x) xs"

definition cumprod :: "real list \<Rightarrow> real list" where
  "cumprod xs = cumprod_from 1 xs"

text \<open>
  \<^verbatim>\<open>torch.searchsorted(cdf, u, right=True)\<close> on one row: the index \<open>i\<close> with
  \<open>cdf[i-1] \<le> u < cdf[i]\<close>. torch asks for a sorted row; on a sorted row the index is
  the number of leading entries that are \<open>\<le> u\<close>.
\<close>

definition searchsorted_right :: "real list \<Rightarrow> real \<Rightarrow> nat" where
  "searchsorted_right cdf u = length (takeWhile (\<lambda>c. c \<le> u) cdf)"

section \<open>\<^verbatim>\<open>sample_pdf\<close>: inverse-CDF resampling\<close>

text \<open>
  Lines 24 to 27 on one row of \<open>weights\<close>. \<^verbatim>\<open>torch.zeros_like(cdf[..., :1])\<close> has one
  entry when the row has one, and none when the row is empty.
  Where the shifted weights sum to 0 torch divides by zero and gives NaN; the real
  division of HOL gives 0 there.
\<close>

definition pdf_of :: "real list \<Rightarrow> real list" where
  "pdf_of weights =
     (let weights = map (\<lambda>w. w + pdf_eps) weights
      in map (\<lambda>w. w / sum_list weights) weights)"

definition cdf_of :: "real list \<Rightarrow> real list" where
  "cdf_of weights =
     (let cdf = cumsum (pdf_of weights)
      in map (\<lambda>_. 0) (take 1 cdf) @ cdf)"

text \<open>Lines 30 to 35: the quantiles of one row; \<open>rnd k\<close> is the \<open>k\<close>-th draw of \<^verbatim>\<open>torch.rand\<close>.\<close>

definition quantiles :: "nat \<Rightarrow> bool \<Rightarrow> (nat \<Rightarrow> real) \<Rightarrow> real list" where
  "quantiles n_samples det rnd =
     (if det
      then linspace (0 + (1 / 2) / real n_samples) (1 - (1 / 2) / real n_samples) n_samples
      else map rnd [0..<n_samples])"

text \<open>Lines 39 to 41: the located interval of one quantile.\<close>

definition below_of :: "real list \<Rightarrow> real \<Rightarrow> nat" where
  "below_of cdf u = nat (max 0 (int (searchsorted_right cdf u) - 1))"

definition above_of :: "real list \<Rightarrow> real \<Rightarrow> nat" where
  "above_of cdf u = nat (min (int (length cdf) - 1) (int (searchsorted_right cdf u)))"

text \<open>Lines 45 to 51 for one quantile \<open>u\<close> of one row.\<close>

definition invert_cdf :: "real list \<Rightarrow> real list \<Rightarrow> real \<Rightarrow> real" where
  "invert_cdf bins cdf u =
     (let cdf_g0 = cdf ! below_of cdf u;
          cdf_g1 = cdf ! above_of cdf u;
          bins_g0 = bins ! below_of cdf u;
          bins_g1 = bins ! above_of cdf u;
          denom = cdf_g1 - cdf_g0;
          denom = (if denom < pdf_eps then 1 else denom);
          t = (u - cdf_g0) / denom
      in bins_g0 + t * (bins_g1 - bins_g0))"

text \<open>
  One row of the batch. The \<^verbatim>\<open>expand\<close> of line 46 needs the row of \<open>bins\<close> as long as
  the row of \<open>cdf\<close> (or of length 1, which it repeats). With no weight the CDF is empty and
  the \<^verbatim>\<open>gather\<close> of line 45 reads index 0 of an empty dimension, which raises as soon
  as one sample is asked for.
\<close>

definition sample_pdf_row ::
    "real list \<Rightarrow> real list \<Rightarrow> nat \<Rightarrow> bool \<Rightarrow> (nat \<Rightarrow> real) \<Rightarrow> error + real list" where
  "sample_pdf_row bins weights n_samples det rnd =
     (let cdf = cdf_of weights;
          u = quantiles n_samples det rnd
      in if length bins \<noteq> length cdf \<and> length bins \<noteq> 1 then Inl RuntimeError
         else if cdf = [] \<and> u \<noteq> [] then Inl RuntimeError
         else
           let bins = (if length bins = length cdf then bins
                       else replicate (length cdf) (hd bins))
           in Inr (map (invert_cdf bins cdf) u))"

text \<open>
  \<^verbatim>\<open>sample_pdf(bins, weights, n_samples, det)\<close> on a batch, \<open>bins: [B, T]\<close> and
  \<open>weights: [B, T - 1]\<close>; \<open>rnd b k\<close> is the draw for row \<open>b\<close>, sample \<open>k\<close>. In
  deterministic mode \<^verbatim>\<open>0.5 / n_samples\<close> is a Python division and raises for 0;
  a negative sample count is refused by \<^verbatim>\<open>torch.linspace\<close> and \<^verbatim>\<open>torch.rand\<close>.
  The first error of a row is the error of the call.
\<close>

fun collect :: "(error + 'a) list \<Rightarrow> error + 'a list" where
  "collect [] = Inr []"
| "collect (Inl e # rs) = Inl e"
| "collect (Inr x # rs) = (case collect rs of Inl e \<Rightarrow> Inl e | Inr xs \<Rightarrow> Inr (x # xs))"

definition sample_pdf ::
    "real list list \<Rightarrow> real list list \<Rightarrow> int \<Rightarrow> bool \<Rightarrow> (nat \<Rightarrow> nat \<Rightarrow> real)
      \<Rightarrow> error + real list list" where
  "sample_pdf bins weights n_samples det rnd =
     (if det \<and> n_samples = 0 then Inl ZeroDivisionError
      else if n_samples < 0 then Inl RuntimeError
      else if length bins \<noteq> length weights then Inl RuntimeError
      else collect (map (\<lambda>b. sample_pdf_row (bins ! b) (weights ! b) (nat n_samples) det (rnd b))
                     [0..<length weights]))"

section \<open>Rays, boxes and the field\<close>

type_synonym vec3 = "real \<times> real \<times> real"

fun vadd :: "vec3 \<Rightarrow> vec3 \<Rightarrow> vec3" where
  "vadd (a, b, c) (x, y, z) = (a + x, b + y, c + z)"

fun vsub :: "vec3 \<Rightarrow> vec3 \<Rightarrow> vec3" where
  "vsub (a, b, c) (x, y, z) = (a - x, b - y, c - z)"

fun vmul :: "vec3 \<Rightarrow> vec3 \<Rightarrow> vec3" where
  "vmul (a, b, c) (x, y, z) = (a * x, b * y, c * z)"

fun vscale :: "real \<Rightarrow> vec3 \<Rightarrow> vec3" where
  "vscale w (x, y, z) = (w * x, w * y, w * z)"

fun vmax :: "vec3 \<Rightarrow> vec3 \<Rightarrow> vec3" where
  "vmax (a, b, c) (x, y, z) = (max a x, max b y, max c z)"

fun vmin :: "vec3 \<Rightarrow> vec3 \<Rightarrow> vec3" where
  "vmin (a, b, c) (x, y, z) = (min a x, min b y, min c z)"

fun vlist :: "vec3 \<Rightarrow> real list" where
  "vlist (x, y, z) = [x, y, z]"

definition vsum :: "vec3 list \<Rightarrow> vec3" where
  "vsum vs = foldr vadd vs (0, 0, 0)"

text \<open>The sum over the sample axis of rows of width \<open>C\<close>, each scaled by its weight.\<close>

definition wsum_rows :: "nat \<Rightarrow> real list \<Rightarrow> real list list \<Rightarrow> real list" where
  "wsum_rows C ws rows =
     foldr (\<lambda>(w, row) acc. map2 (+) (map ((*) w) row) acc) (zip ws rows) (replicate C 0)"

text \<open>One ray of the three tensors \<open>rays_o\<close>, \<open>rays_d\<close> and \<open>direction_norms\<close>.\<close>

record ray =
  rays_o :: vec3
  rays_d :: vec3
  direction_norms :: real

text \<open>An AABB \<open>(xmin, ymin, zmin, xmax, ymax, zmax)\<close>: \<open>aabb[:3]\<close> and \<open>aabb[3:]\<close>.\<close>

type_synonym aabb = "vec3 \<times> vec3"

text \<open>
  The field a subclass of \<^verbatim>\<open>NeRFRenderer\<close> supplies (\<^verbatim>\<open>density\<close>, \<^verbatim>\<open>color\<close>,
  \<^verbatim>\<open>clip\<close>, \<^verbatim>\<open>clip_feat_dim\<close>), read row by row: \<open>density x\<close> is the pair of
  \<open>sigma\<close> and \<open>geo_feat\<close> at position \<open>x\<close>; \<open>color x d m g s\<close> is the colour at
  position \<open>x\<close>, direction \<open>d\<close>, with the row's entry \<open>m\<close> of the mask, feature \<open>g\<close> and
  density \<open>s\<close>; \<open>clip g s\<close> is the auxiliary embedding. That each output row depends on
  its own input row only is the contract of the field.
\<close>

record field =
  density :: "vec3 \<Rightarrow> real \<times> real list"
  color :: "vec3 \<Rightarrow> vec3 \<Rightarrow> bool \<Rightarrow> real list \<Rightarrow> real \<Rightarrow> vec3"
  clip :: "real list \<Rightarrow> real \<Rightarrow> real list"
  clip_feat_dim :: nat

text \<open>
  The kernels of \<^verbatim>\<open>torch_ngp.raymarching\<close> that the renderer calls; their code is
  not part of the source, so they are parameters.
\<close>

record kernels =
  near_far_from_aabb :: "ray \<Rightarrow> aabb \<Rightarrow> real \<Rightarrow> real \<times> real"
  morton3D :: "nat \<times> nat \<times> nat \<Rightarrow> nat"
  morton3D_invert :: "nat \<Rightarrow> nat \<times> nat \<times> nat"
  packbits :: "real list list \<Rightarrow> real \<Rightarrow> 8 word list \<Rightarrow> 8 word list"

section \<open>The renderer object\<close>

text \<open>The attributes \<^verbatim>\<open>__init__\<close> creates only when \<open>cuda_ray\<close> is set.\<close>

record extra_state =
  density_grid :: "real list list" \<comment> \<open>\<open>[CAS, H * H * H]\<close>\<close>
  density_bitfield :: "8 word list"
  mean_density :: real
  iter_density :: int
  step_counter :: "(int \<times> int) list" \<comment> \<open>\<open>[16, 2]\<close>\<close>
  mean_count :: int
  local_step :: int

record renderer =
  bound :: real
  cascade :: int
  grid_size :: nat
  density_scale :: real
  min_near :: real
  density_thresh :: real
  bg_radius :: real
  aabb_train :: aabb
  aabb_infer :: aabb
  cuda_ray :: bool
  training :: bool
  extra :: "extra_state option"

text \<open>
  \<^verbatim>\<open>__init__\<close> for a \<open>bound\<close> that is a Python number (the branch for an array is not
  modelled). \<^verbatim>\<open>math.log2\<close> raises on a bound that is not positive, and
  \<^verbatim>\<open>torch.zeros\<close> on a negative number of cascades. A new module is in training mode.
\<close>

definition init :: "real \<Rightarrow> bool \<Rightarrow> real \<Rightarrow> real \<Rightarrow> real \<Rightarrow> real \<Rightarrow> error + renderer" where
  "init bnd cuda dscale mnear dthresh bgr =
     (if bnd \<le> 0 then Inl ValueError
      else
        let cas = 1 + \<lceil>log 2 bnd\<rceil>;
            gs = 128;
            aabb = ((- bnd, - bnd, - bnd), (bnd, bnd, bnd))
        in if cuda \<and> cas < 0 then Inl RuntimeError
           else Inr \<lparr>bound = bnd, cascade = cas, grid_size = gs, density_scale = dscale,
                  min_near = mnear, density_thresh = dthresh, bg_radius = bgr,
                  aabb_train = aabb, aabb_infer = aabb, cuda_ray = cuda, training = True,
                  extra =
                    (if cuda
                     then Some \<lparr>density_grid = replicate (nat cas) (replicate (gs ^ 3) 0),
                                density_bitfield = replicate (nat cas * gs ^ 3 div 8) 0,
                                mean_density = 0, iter_density = 0,
                                step_counter = replicate 16 (0, 0),
                                mean_count = 0, local_step = 0\<rparr>
                     else None)\<rparr>)"

text \<open>\<^verbatim>\<open>reset_extra_state\<close>. Reading a missing attribute raises \<open>AttributeError\<close>.\<close>

definition reset_extra_state :: "renderer \<Rightarrow> error + renderer" where
  "reset_extra_state st =
     (if \<not> cuda_ray st then Inr st
      else case extra st of
        None \<Rightarrow> Inl AttributeError
      | Some ex \<Rightarrow>
          Inr (st\<lparr>extra := Some (ex\<lparr>density_grid := map (map (\<lambda>_. 0)) (density_grid ex),
                                     mean_density := 0, iter_density := 0,
                                     step_counter := map (\<lambda>_. (0, 0)) (step_counter ex),
                                     mean_count := 0, local_step := 0\<rparr>)\<rparr>))"

section \<open>The compositor of \<^verbatim>\<open>run\<close>\<close>

text \<open>
  Lines 243 to 245 on one ray. \<^verbatim>\<open>torch.ones_like(deltas[..., :1])\<close> has one entry when
  there is a difference of depths, and none when there is none.
\<close>

definition deltas_of :: "real list \<Rightarrow> real \<Rightarrow> real list" where
  "deltas_of z_vals sample_dist =
     (let deltas = map2 (\<lambda>a b. a - b) (drop 1 z_vals) (butlast z_vals)
      in deltas @ map (\<lambda>one. sample_dist * one) (map (\<lambda>_. 1) (take 1 deltas)))"

text \<open>
  Lines 246 to 247. The product of \<open>deltas\<close> and \<open>sigma\<close> is elementwise; where torch
  broadcasts a row of one density against an empty row of deltas the result is empty, as
  \<open>zip\<close> gives.
\<close>

definition alphas_of :: "real list \<Rightarrow> real \<Rightarrow> real list \<Rightarrow> real list" where
  "alphas_of deltas dscale sigma = map2 (\<lambda>d s. 1 - exp (- d * dscale * s)) deltas sigma"

text \<open>Lines 248 to 250.\<close>

definition alphas_shifted_of :: "real list \<Rightarrow> real list" where
  "alphas_shifted_of alphas =
     map (\<lambda>_. 1) (take 1 alphas) @ map (\<lambda>a. 1 - a + trans_eps) alphas"

text \<open>Lines 251 to 252: the weights before masking.\<close>

definition weights_of :: "real list \<Rightarrow> real list" where
  "weights_of alphas = map2 (*) alphas (butlast (cumprod (alphas_shifted_of alphas)))"

text \<open>Line 256, and line 270: \<^verbatim>\<open>weights[torch.logical_not(mask)] = 0.\<close>\<close>

definition mask_of :: "real list \<Rightarrow> bool list" where
  "mask_of weights = map (\<lambda>w. w > mask_thresh) weights"

definition apply_mask :: "real list \<Rightarrow> bool list \<Rightarrow> real list" where
  "apply_mask weights msk = map2 (\<lambda>w m. if \<not> m then 0 else w) weights msk"

text \<open>
  Lines 213 to 232 on one ray: the depths and the clipped positions. \<open>noise i\<close> is the
  draw of \<^verbatim>\<open>torch.rand\<close> for sample \<open>i\<close> of this ray.
\<close>

definition active_aabb :: "renderer \<Rightarrow> aabb" where
  "active_aabb st = (if training st then aabb_train st else aabb_infer st)"

definition sample_dist_of :: "kernels \<Rightarrow> renderer \<Rightarrow> nat \<Rightarrow> ray \<Rightarrow> real" where
  "sample_dist_of ker st num_steps r =
     (let (nears, fars) = near_far_from_aabb ker r (active_aabb st) (min_near st)
      in (fars - nears) / real num_steps)"

definition z_vals_of :: "kernels \<Rightarrow> renderer \<Rightarrow> nat \<Rightarrow> bool \<Rightarrow> (nat \<Rightarrow> real) \<Rightarrow> ray \<Rightarrow> real list" where
  "z_vals_of ker st num_steps perturb noise r =
     (let (nears, fars) = near_far_from_aabb ker r (active_aabb st) (min_near st);
          z_vals = map (\<lambda>l. nears + (fars - nears) * l) (linspace 0 1 num_steps);
          sample_dist = sample_dist_of ker st num_steps r
      in if perturb
         then map (\<lambda>i. z_vals ! i + (noise i - 1 / 2) * sample_dist) [0..<num_steps]
         else z_vals)"

definition xyzs_of :: "renderer \<Rightarrow> ray \<Rightarrow> real list \<Rightarrow> vec3 list" where
  "xyzs_of st r z_vals =
     map (\<lambda>z. vmin (vmax (vadd (rays_o r) (vscale z (rays_d r))) (fst (active_aabb st)))
                    (snd (active_aabb st)))
         z_vals"

text \<open>The pre-mask weights of one ray, from its densities (lines 235 to 252).\<close>

definition ray_weights :: "field \<Rightarrow> kernels \<Rightarrow> renderer \<Rightarrow> nat \<Rightarrow> bool \<Rightarrow> (nat \<Rightarrow> real) \<Rightarrow> ray \<Rightarrow> real list" where
  "ray_weights fld ker st num_steps perturb noise r =
     (let z_vals = z_vals_of ker st num_steps perturb noise r;
          sigma = map (\<lambda>x. fst (density fld x)) (xyzs_of st r z_vals)
      in weights_of (alphas_of (deltas_of z_vals (sample_dist_of ker st num_steps r))
                               (density_scale st) sigma))"

text \<open>
  Lines 254 to 265 on one ray: the colour query, with the mask computed from the pre-mask
  weights (\<open>msk\<close> is the \<^verbatim>\<open>mask\<close> of the source). The mask has one entry per weight.
\<close>

definition ray_rgbs :: "field \<Rightarrow> kernels \<Rightarrow> renderer \<Rightarrow> nat \<Rightarrow> bool \<Rightarrow> (nat \<Rightarrow> real) \<Rightarrow> ray \<Rightarrow> vec3 list" where
  "ray_rgbs fld ker st num_steps perturb noise r =
     (let xyzs = xyzs_of st r (z_vals_of ker st num_steps perturb noise r);
          msk = mask_of (ray_weights fld ker st num_steps perturb noise r)
      in map2 (\<lambda>x m. color fld x (rays_d r) m (snd (density fld x)) (fst (density fld x)))
              xyzs msk)"

text \<open>What \<^verbatim>\<open>run\<close> computes for one ray (one row of each returned tensor).\<close>

record ray_out =
  o_depth :: real
  o_depth_variance :: real
  o_image :: vec3
  o_coordinates_map :: vec3
  o_rgb :: "vec3 list"
  o_clip_features :: "real list"

text \<open>
  Lines 270 to 305 on one ray. \<open>C\<close> is the width of the rows \<^verbatim>\<open>self.clip\<close> returns
  (\<^verbatim>\<open>clip_features.shape[-1]\<close>). The background colour is 1: \<^verbatim>\<open>bg_color\<close> is
  \<^verbatim>\<open>None\<close> past the assertion of line 199, and the branch of \<^verbatim>\<open>bg_radius > 0\<close>
  stops at the assertion of line 291. Dividing by a direction norm of 0 gives infinity or
  NaN in torch, and 0 in HOL.
\<close>

definition run_ray :: "field \<Rightarrow> kernels \<Rightarrow> renderer \<Rightarrow> nat \<Rightarrow> bool \<Rightarrow> nat \<Rightarrow> (nat \<Rightarrow> real) \<Rightarrow> ray \<Rightarrow> ray_out" where
  "run_ray fld ker st num_steps perturb C noise r =
     (let z_vals = z_vals_of ker st num_steps perturb noise r;
          xyzs = xyzs_of st r z_vals;
          weights = ray_weights fld ker st num_steps perturb noise r;
          msk = mask_of weights;
          rgbs = ray_rgbs fld ker st num_steps perturb noise r;
          weights = apply_mask weights msk;
          weights_sum = sum_list weights;
          depth = sum_list (map2 (*) weights z_vals);
          depth = depth / direction_norms r;
          depth_variance =
            sum_list (map2 (\<lambda>w z. w * (depth - z / direction_norms r) ^ 2) weights z_vals);
          coordinates_map = vsum (map2 vscale weights xyzs);
          image = vsum (map2 vscale weights rgbs);
          bg_color = 1;
          image = vadd image (vscale ((1 - weights_sum) * bg_color) (1, 1, 1));
          clip_features = map (\<lambda>x. clip fld (snd (density fld x)) (fst (density fld x))) xyzs;
          clip_features = wsum_rows C weights clip_features
      in \<lparr>o_depth = depth, o_depth_variance = depth_variance, o_image = image,
          o_coordinates_map = coordinates_map, o_rgb = rgbs,
          o_clip_features = clip_features\<rparr>)"

section \<open>\<^verbatim>\<open>run\<close>: the single-pass render path\<close>

text \<open>
  The queries \<^verbatim>\<open>run\<close> sends to the field, in the order it sends them. \<^verbatim>\<open>run\<close>
  returns this log beside its result, so that a claim about what happens before a query
  can be stated.
\<close>

datatype query = DensityQuery | ColorQuery | ClipQuery

text \<open>
  The dict \<^verbatim>\<open>run\<close> returns has six fixed keys; it is a record, one field per key:
  \<open>depth: [B, N]\<close>, \<open>depth_variance: [B * N]\<close> (line 277 keeps it flat),
  \<open>image: [B, N, 3]\<close>, \<open>coordinates_map: [B, N, 3]\<close>, \<open>rgb: [B * N, T, 3]\<close> and
  \<open>clip_features: [B, N, C]\<close>.
\<close>

record run_out =
  res_depth :: "real list list"
  res_depth_variance :: "real list"
  res_image :: "real list list list"
  res_coordinates_map :: "real list list list"
  res_rgb :: "real list list list"
  res_clip_features :: "real list list list"

text \<open>
  \<^verbatim>\<open>x.view(*prefix, ...)\<close>: the flat list of per-ray rows, cut back into the rows of
  the batch \<open>rays\<close> (\<open>prefix = rays_o.shape[:-1]\<close>).
\<close>

fun view_prefix :: "'b list list \<Rightarrow> 'a list \<Rightarrow> 'a list list" where
  "view_prefix [] xs = []"
| "view_prefix (row # rows) xs = take (length row) xs # view_prefix rows (drop (length row) xs)"

text \<open>\<^verbatim>\<open>clip_features.shape[-1]\<close>: the width of the rows \<^verbatim>\<open>self.clip\<close> returns.\<close>

definition clip_width :: "field \<Rightarrow> kernels \<Rightarrow> renderer \<Rightarrow> nat \<Rightarrow> bool \<Rightarrow> (nat \<Rightarrow> real) \<Rightarrow> ray \<Rightarrow> nat" where
  "clip_width fld ker st num_steps perturb noise r =
     (let x = hd (xyzs_of st r (z_vals_of ker st num_steps perturb noise r))
      in length (clip fld (snd (density fld x)) (fst (density fld x))))"

text \<open>
  \<^verbatim>\<open>run(rays_o, rays_d, direction_norms, num_steps, upsample_steps, bg_color, perturb)\<close>
  on a batch \<open>rays: [B, N]\<close>; \<open>noise n i\<close> is the draw of \<^verbatim>\<open>torch.rand\<close> for sample
  \<open>i\<close> of the \<open>n\<close>-th ray of the flattened batch. In the order of the source:
  the two assertions of lines 198 and 199; \<^verbatim>\<open>torch.linspace\<close>, which refuses a negative
  number of steps; the density query; \<^verbatim>\<open>v.view(N, num_steps, -1)\<close> of line 238, which
  raises when \<open>N * num_steps = 0\<close> (the size \<open>-1\<close> stands for is ambiguous); the colour
  query; the assertion of line 291; the query of the auxiliary head.
\<close>

definition run ::
    "field \<Rightarrow> kernels \<Rightarrow> renderer \<Rightarrow> (nat \<Rightarrow> nat \<Rightarrow> real) \<Rightarrow> ray list list \<Rightarrow> int \<Rightarrow> int
      \<Rightarrow> vec3 option \<Rightarrow> bool \<Rightarrow> query list \<times> (error + run_out)" where
  "run fld ker st noise rays num_steps upsample_steps bg_color perturb =
     (if upsample_steps \<noteq> 0 then ([], Inl AssertionError)
      else if bg_color \<noteq> None then ([], Inl AssertionError)
      else
        let flat = concat rays; N = length flat
        in if num_steps < 0 then ([], Inl RuntimeError)
           else if N = 0 \<or> num_steps = 0 then ([DensityQuery], Inl RuntimeError)
           else
             let T = nat num_steps;
                 C = clip_width fld ker st T perturb (noise 0) (hd flat);
                 outs = map (\<lambda>n. run_ray fld ker st T perturb C (noise n) (flat ! n)) [0..<N]
             in if bg_radius st > 0 then ([DensityQuery, ColorQuery], Inl AssertionError)
                else
                  ([DensityQuery, ColorQuery, ClipQuery],
                   Inr \<lparr>res_depth = view_prefix rays (map o_depth outs),
                        res_depth_variance = map o_depth_variance outs,
                        res_image = view_prefix rays (map (vlist \<circ> o_image) outs),
                        res_coordinates_map =
                          view_prefix rays (map (vlist \<circ> o_coordinates_map) outs),
                        res_rgb = map (map vlist \<circ> o_rgb) outs,
                        res_clip_features = view_prefix rays (map o_clip_features outs)\<rparr>))"

text \<open>\<^verbatim>\<open>run_cuda\<close> stops at the assertion of its first line.\<close>

definition run_cuda :: "query list \<times> (error + run_out)" where
  "run_cuda = ([], Inl AssertionError)"

section \<open>\<^verbatim>\<open>render\<close>: staged and unstaged\<close>

text \<open>
  Python's slice \<open>xs[start:stop]\<close> and the slice assignment \<open>xs[start:stop] = src\<close> of a
  source as long as the slice, for any integers: a negative bound counts from the end,
  and both bounds are clamped to the list.
\<close>

definition slice_bound :: "nat \<Rightarrow> int \<Rightarrow> nat" where
  "slice_bound n i = (if i < 0 then nat (max 0 (i + int n)) else min (nat i) n)"

definition py_slice :: "'a list \<Rightarrow> int \<Rightarrow> int \<Rightarrow> 'a list" where
  "py_slice xs start stop =
     (let a = slice_bound (length xs) start; b = slice_bound (length xs) stop
      in take (b - a) (drop a xs))"

definition py_slice_assign :: "'a list \<Rightarrow> int \<Rightarrow> int \<Rightarrow> 'a list \<Rightarrow> 'a list" where
  "py_slice_assign xs start stop src =
     (let a = slice_bound (length xs) start; b = slice_bound (length xs) stop
      in take a xs @ src @ drop (max a b) xs)"

text \<open>
  The dict \<^verbatim>\<open>render\<close> returns: its two branches return different keys, and
  \<open>depth_variance\<close> in different shapes, so it is a map from the key to a tensor of
  one, two or three dimensions.
\<close>

datatype tensor = Tensor1 "real list" | Tensor2 "real list list" | Tensor3 "real list list list"

definition results_of_run :: "run_out \<Rightarrow> (string \<rightharpoonup> tensor)" where
  "results_of_run r =
     [''depth'' \<mapsto> Tensor2 (res_depth r),
      ''depth_variance'' \<mapsto> Tensor1 (res_depth_variance r),
      ''image'' \<mapsto> Tensor3 (res_image r),
      ''coordinates_map'' \<mapsto> Tensor3 (res_coordinates_map r),
      ''rgb'' \<mapsto> Tensor3 (res_rgb r),
      ''clip_features'' \<mapsto> Tensor3 (res_clip_features r)]"

text \<open>The arrays the staged branch allocates (lines 720 to 727), each \<open>[B, N, ...]\<close>.\<close>

record staged_out =
  s_depth :: "real list list"
  s_depth_variance :: "real list list"
  s_image :: "real list list list"
  s_clip_features :: "real list list list"
  s_coordinates_map :: "real list list list"

text \<open>
  Lines 741 to 751: the results of the chunk \<open>[head:tail]\<close> of row \<open>b\<close>, written into
  the arrays. The chunk's results have the leading dimension 1 (its \<open>depth_variance\<close>
  has none). The rows of \<open>clip_features\<close> must have the width \<^verbatim>\<open>self.clip_feat_dim\<close> the
  array was allocated with, or the width 1, which the assignment repeats; any other width
  raises.
\<close>

definition write_chunk :: "field \<Rightarrow> nat \<Rightarrow> int \<Rightarrow> int \<Rightarrow> run_out \<Rightarrow> staged_out \<Rightarrow> error + staged_out" where
  "write_chunk fld b head tail results bufs =
     (let w = length (hd (res_clip_features results ! 0));
          rows = (if w = clip_feat_dim fld then res_clip_features results ! 0
                  else map (\<lambda>row. replicate (clip_feat_dim fld) (hd row))
                         (res_clip_features results ! 0))
      in if w \<noteq> clip_feat_dim fld \<and> w \<noteq> 1 then Inl RuntimeError
         else Inr (bufs
           \<lparr>s_image := (s_image bufs)
              [b := py_slice_assign (s_image bufs ! b) head tail (res_image results ! 0)],
            s_depth := (s_depth bufs)
              [b := py_slice_assign (s_depth bufs ! b) head tail (res_depth results ! 0)],
            s_depth_variance := (s_depth_variance bufs)
              [b := py_slice_assign (s_depth_variance bufs ! b) head tail
                      (res_depth_variance results)],
            s_clip_features := (s_clip_features bufs)
              [b := py_slice_assign (s_clip_features bufs ! b) head tail rows],
            s_coordinates_map := (s_coordinates_map bufs)
              [b := py_slice_assign (s_coordinates_map bufs ! b) head tail
                      (res_coordinates_map results ! 0)]\<rparr>))"

text \<open>The keyword arguments \<^verbatim>\<open>render\<close> hands on to \<^verbatim>\<open>run\<close>.\<close>

record kwargs =
  kw_num_steps :: int
  kw_upsample_steps :: int
  kw_bg_color :: "vec3 option"
  kw_perturb :: bool

text \<open>
  Lines 734 to 756: the loop over the chunks of row \<open>b\<close>, from \<open>head\<close> on; \<open>N\<close> is
  \<open>rays_o.shape[1]\<close> and \<open>noise head\<close> the draws of the call of \<^verbatim>\<open>run\<close> on the chunk
  that starts at \<open>head\<close>. An exception of the chunk's call ends the loop. The loop ends
  for every chunk size: \<^verbatim>\<open>run\<close> raises on an empty chunk, and with a chunk size that is
  not positive the second chunk at the latest is empty.
\<close>

function stage_chunks ::
    "field \<Rightarrow> kernels \<Rightarrow> renderer \<Rightarrow> (int \<Rightarrow> nat \<Rightarrow> nat \<Rightarrow> real) \<Rightarrow> kwargs \<Rightarrow> ray list \<Rightarrow> nat
      \<Rightarrow> int \<Rightarrow> int \<Rightarrow> int \<Rightarrow> query list \<Rightarrow> staged_out \<Rightarrow> query list \<times> (error + staged_out)" where
  "stage_chunks fld ker st noise kw row b max_ray_batch N head trace bufs =
     (if head < N then
        let tail = min (head + max_ray_batch) N;
            (trace', results) =
              run fld ker st (noise head) [py_slice row head tail]
                (kw_num_steps kw) (kw_upsample_steps kw) (kw_bg_color kw) (kw_perturb kw)
        in case results of
             Inl e \<Rightarrow> (trace @ trace', Inl e)
           | Inr r \<Rightarrow>
               (case write_chunk fld b head tail r bufs of
                  Inl e \<Rightarrow> (trace @ trace', Inl e)
                | Inr bufs' \<Rightarrow>
                    stage_chunks fld ker st noise kw row b max_ray_batch N
                      (head + max_ray_batch) (trace @ trace') bufs')
      else (trace, Inr bufs))"
  by pat_completeness auto
termination
proof (relation "measure (\<lambda>(fld, ker, st, noise, kw, row, b, mrb, N, head, trace, bufs).
          if 0 < mrb then nat (N - head) else if 0 \<le> head then 1 else 0)", goal_cases)
  case 1
  show ?case by simp
next
  case (2 fld ker st noise kw row b mrb N head trace bufs tail x trace' results r bufs')
  have ne: "py_slice row head tail \<noteq> []"
  proof
    assume "py_slice row head tail = []"
    then have "snd (run fld ker st (noise head) [py_slice row head tail]
                (kw_num_steps kw) (kw_upsample_steps kw) (kw_bg_color kw) (kw_perturb kw)) \<noteq> Inr r"
      by (simp add: run_def Let_def)
    then show False using 2 by (metis snd_conv)
  qed
  show ?case
  proof (cases "0 < mrb")
    case True
    then show ?thesis using 2(1) by simp
  next
    case False
    then have t: "tail \<le> head" using 2(2) by simp
    have "0 \<le> head \<and> head + mrb < 0"
    proof (rule ccontr)
      assume a: "\<not> (0 \<le> head \<and> head + mrb < 0)"
      have "slice_bound (length row) tail \<le> slice_bound (length row) head"
      proof (cases "head < 0")
        case True
        then show ?thesis using t by (simp add: slice_bound_def)
      next
        case hn: False
        then have "0 \<le> head + mrb" using a by simp
        then have "0 \<le> tail" using 2(1,2) hn by simp
        then show ?thesis using t hn by (simp add: slice_bound_def)
      qed
      then show False using ne by (simp add: py_slice_def Let_def)
    qed
    then show ?thesis using False by simp
  qed
qed

declare stage_chunks.simps [simp del]

text \<open>Line 733: the loop over the rows of the batch.\<close>

fun stage_rows ::
    "field \<Rightarrow> kernels \<Rightarrow> renderer \<Rightarrow> (nat \<Rightarrow> int \<Rightarrow> nat \<Rightarrow> nat \<Rightarrow> real) \<Rightarrow> kwargs \<Rightarrow> ray list list
      \<Rightarrow> int \<Rightarrow> int \<Rightarrow> nat list \<Rightarrow> query list \<Rightarrow> staged_out \<Rightarrow> query list \<times> (error + staged_out)" where
  "stage_rows fld ker st noise kw rays max_ray_batch N [] trace bufs = (trace, Inr bufs)"
| "stage_rows fld ker st noise kw rays max_ray_batch N (b # bs) trace bufs =
     (case stage_chunks fld ker st (noise b) kw (rays ! b) b max_ray_batch N 0 trace bufs of
        (trace', Inl e) \<Rightarrow> (trace', Inl e)
      | (trace', Inr bufs') \<Rightarrow> stage_rows fld ker st noise kw rays max_ray_batch N bs trace' bufs')"

text \<open>
  \<^verbatim>\<open>render(rays_o, rays_d, direction_norms, staged, max_ray_batch, **kwargs)\<close> on a
  batch \<open>rays: [B, N]\<close>. With \<open>cuda_ray\<close> it stops at the assertion of line 711.
  \<open>uninit\<close> is what \<^verbatim>\<open>torch.empty\<close> leaves in a fresh array; \<open>noise b head\<close> are the
  draws of the call of \<^verbatim>\<open>run\<close> on the chunk of row \<open>b\<close> that starts at \<open>head\<close>, and
  \<open>noise 0 0\<close> those of the one call of the unstaged branch. The trace of the field
  queries comes first, as for \<^verbatim>\<open>run\<close>.
\<close>

definition render ::
    "field \<Rightarrow> kernels \<Rightarrow> renderer \<Rightarrow> (nat \<Rightarrow> int \<Rightarrow> nat \<Rightarrow> nat \<Rightarrow> real) \<Rightarrow> real \<Rightarrow> ray list list
      \<Rightarrow> bool \<Rightarrow> int \<Rightarrow> kwargs \<Rightarrow> query list \<times> (error + (string \<rightharpoonup> tensor))" where
  "render fld ker st noise uninit rays staged max_ray_batch kw =
     (if cuda_ray st then ([], Inl AssertionError)
      else
        let B = length rays;
            N = (case rays of [] \<Rightarrow> 0 | row # _ \<Rightarrow> length row)
        in if staged \<and> \<not> cuda_ray st then
             let bufs =
                   \<lparr>s_depth = replicate B (replicate N uninit),
                    s_depth_variance = replicate B (replicate N uninit),
                    s_image = replicate B (replicate N (replicate 3 uninit)),
                    s_clip_features =
                      replicate B (replicate N (replicate (clip_feat_dim fld) uninit)),
                    s_coordinates_map = replicate B (replicate N (replicate 3 uninit))\<rparr>
             in case stage_rows fld ker st noise kw rays max_ray_batch (int N) [0..<B] [] bufs of
                  (trace, Inl e) \<Rightarrow> (trace, Inl e)
                | (trace, Inr bufs) \<Rightarrow>
                    (trace,
                     Inr [''depth'' \<mapsto> Tensor2 (s_depth bufs),
                          ''depth_variance'' \<mapsto> Tensor2 (s_depth_variance bufs),
                          ''image'' \<mapsto> Tensor3 (s_image bufs),
                          ''clip_features'' \<mapsto> Tensor3 (s_clip_features bufs),
                          ''coordinates_map'' \<mapsto> Tensor3 (s_coordinates_map bufs)])
           else
             (case run fld ker st (noise 0 0) rays (kw_num_steps kw) (kw_upsample_steps kw)
                     (kw_bg_color kw) (kw_perturb kw) of
                (trace, Inl e) \<Rightarrow> (trace, Inl e)
              | (trace, Inr results) \<Rightarrow> (trace, Inr (results_of_run results))))"

section \<open>The occupancy grid\<close>

text \<open>
  \<^verbatim>\<open>x.split(S)\<close> of a one-dimensional tensor, for \<open>S > 0\<close> (torch raises for
  \<open>S \<le> 0\<close> on a non-empty tensor; the callers check before they split): chunks of \<open>S\<close>
  entries, the last one shorter; an empty tensor gives one empty chunk.
\<close>

function split_size :: "nat \<Rightarrow> 'a list \<Rightarrow> 'a list list" where
  "split_size S xs =
     (if S = 0 \<or> length xs \<le> S then [xs] else take S xs # split_size S (drop S xs))"
  by pat_completeness auto
termination
  by (relation "measure (\<lambda>(S, xs). length xs)") auto

declare split_size.simps [simp del]

text \<open>
  \<^verbatim>\<open>custom_meshgrid(xs, ys, zs)\<close> (\<^verbatim>\<open>torch.meshgrid\<close> with \<open>ij\<close> indexing), each
  output reshaped to a column and the three concatenated: the list of the \<open>coords\<close>.
\<close>

definition meshgrid_coords :: "nat list \<Rightarrow> nat list \<Rightarrow> nat list \<Rightarrow> (nat \<times> nat \<times> nat) list" where
  "meshgrid_coords xs ys zs = concat (map (\<lambda>x. concat (map (\<lambda>y. map (\<lambda>z. (x, y, z)) zs) ys)) xs)"

text \<open>The blocks the three nested loops over \<open>X\<close>, \<open>Y\<close> and \<open>Z\<close> visit, in their order.\<close>

definition grid_blocks :: "nat \<Rightarrow> nat \<Rightarrow> (nat \<times> nat \<times> nat) list list" where
  "grid_blocks G S =
     concat (map (\<lambda>xs. concat (map (\<lambda>ys. map (\<lambda>zs. meshgrid_coords xs ys zs)
                                           (split_size S [0..<G]))
                                (split_size S [0..<G])))
                 (split_size S [0..<G]))"

text \<open>
  \<^verbatim>\<open>2 * coords.float() / (self.grid_size - 1) - 1\<close>, and the scale of cascade \<open>cas\<close>:
  \<open>bound = min(2 ** cas, self.bound)\<close> and \<open>half_grid_size = bound / self.grid_size\<close>.
\<close>

definition cell_xyz :: "renderer \<Rightarrow> nat \<times> nat \<times> nat \<Rightarrow> vec3" where
  "cell_xyz st c =
     (case c of (x, y, z) \<Rightarrow>
        (2 * real x / (real (grid_size st) - 1) - 1,
         2 * real y / (real (grid_size st) - 1) - 1,
         2 * real z / (real (grid_size st) - 1) - 1))"

definition cas_bound :: "renderer \<Rightarrow> nat \<Rightarrow> real" where
  "cas_bound st cas = min (2 ^ cas) (bound st)"

definition half_grid_size :: "renderer \<Rightarrow> nat \<Rightarrow> real" where
  "half_grid_size st cas = cas_bound st cas / real (grid_size st)"

text \<open>
  Lines 622 to 629 (and 662 to 667) for one cell: the centre scaled to the cascade, the
  jitter \<open>(rand * 2 - 1) * half_grid_size\<close> for the draw \<open>rand\<close> of \<^verbatim>\<open>torch.rand_like\<close>,
  and the density there times \<open>density_scale\<close>.
\<close>

definition sample_sigma :: "field \<Rightarrow> renderer \<Rightarrow> nat \<Rightarrow> nat \<times> nat \<times> nat \<Rightarrow> vec3 \<Rightarrow> real" where
  "sample_sigma fld st cas c rand =
     (let cas_xyzs = vscale (cas_bound st cas - half_grid_size st cas) (cell_xyz st c);
          cas_xyzs = vadd cas_xyzs
            (vscale (half_grid_size st cas) (vsub (vscale 2 rand) (1, 1, 1)));
          sigmas = fst (density fld cas_xyzs)
      in sigmas * density_scale st)"

text \<open>
  \<^verbatim>\<open>grid[cas, indices] = values\<close>: an index past the row raises; of two values written
  to one index the later one stays (torch leaves the order open on a GPU).
\<close>

definition index_put :: "real list \<Rightarrow> nat list \<Rightarrow> real list \<Rightarrow> error + real list" where
  "index_put row indices vals =
     (if list_ex (\<lambda>i. length row \<le> i) indices then Inl IndexError
      else Inr (fold (\<lambda>(i, v) r. r[i := v]) (zip indices vals) row))"

definition grid_put :: "real list list \<Rightarrow> nat \<Rightarrow> nat list \<Rightarrow> real list \<Rightarrow> error + real list list" where
  "grid_put grid cas indices vals =
     (if length grid \<le> cas then Inl IndexError
      else case index_put (grid ! cas) indices vals of
             Inl e \<Rightarrow> Inl e
           | Inr row \<Rightarrow> Inr (grid[cas := row]))"

text \<open>A loop whose body may raise: the first exception ends it.\<close>

fun foldE :: "('a \<Rightarrow> 's \<Rightarrow> error + 's) \<Rightarrow> 'a list \<Rightarrow> 's \<Rightarrow> error + 's" where
  "foldE f [] s = Inr s"
| "foldE f (x # xs) s = (case f x s of Inl e \<Rightarrow> Inl e | Inr s' \<Rightarrow> foldE f xs s')"

text \<open>
  The draws of one call of \<^verbatim>\<open>update_extra_state\<close>: \<open>full_jitter cas c\<close> is the draw
  of \<^verbatim>\<open>torch.rand_like\<close> for cell \<open>c\<close> of cascade \<open>cas\<close> in a full sweep;
  \<open>rand_coords cas k\<close>, \<open>rand_occ cas k\<close> and \<open>part_jitter cas k\<close> are the \<open>k\<close>-th
  draws of the two \<^verbatim>\<open>torch.randint\<close> and of \<^verbatim>\<open>torch.rand_like\<close> in a partial sweep
  (an integer draw is any natural number, reduced into its range).
\<close>

record draws =
  full_jitter :: "nat \<Rightarrow> nat \<times> nat \<times> nat \<Rightarrow> vec3"
  rand_coords :: "nat \<Rightarrow> nat \<Rightarrow> nat \<times> nat \<times> nat"
  rand_occ :: "nat \<Rightarrow> nat \<Rightarrow> nat"
  part_jitter :: "nat \<Rightarrow> nat \<Rightarrow> vec3"

text \<open>Lines 601 to 631: the full sweep, block by block and cascade by cascade.\<close>

definition full_sweep ::
    "field \<Rightarrow> kernels \<Rightarrow> draws \<Rightarrow> renderer \<Rightarrow> nat \<Rightarrow> real list list \<Rightarrow> error + real list list" where
  "full_sweep fld ker rnd st S tmp_grid =
     foldE (\<lambda>coords tmp_grid.
              let indices = map (morton3D ker) coords
              in foldE (\<lambda>cas tmp_grid.
                          let sigmas = map (\<lambda>c. sample_sigma fld st cas c (full_jitter rnd cas c))
                                           coords
                          in grid_put tmp_grid cas indices sigmas)
                       [0..<nat (cascade st)] tmp_grid)
           (grid_blocks (grid_size st) S) tmp_grid"

text \<open>
  Lines 636 to 669: the partial sweep. \<open>N = H * H * H / 4\<close> random cells, and \<open>N\<close> cells
  drawn with replacement from those whose density is positive;
  \<^verbatim>\<open>torch.randint(0, 0, [N])\<close> raises when there is none.
\<close>

definition occ_indices_of :: "real list \<Rightarrow> nat list" where
  "occ_indices_of row = filter (\<lambda>i. row ! i > 0) [0..<length row]"

definition partial_indices ::
    "kernels \<Rightarrow> draws \<Rightarrow> renderer \<Rightarrow> real list \<Rightarrow> nat \<Rightarrow> nat list \<times> (nat \<times> nat \<times> nat) list" where
  "partial_indices ker rnd st row cas =
     (let N = grid_size st ^ 3 div 4;
          coords = map (\<lambda>k. case rand_coords rnd cas k of
                              (x, y, z) \<Rightarrow> (x mod grid_size st, y mod grid_size st,
                                            z mod grid_size st))
                       [0..<N];
          indices = map (morton3D ker) coords;
          occ_indices = occ_indices_of row;
          rand_mask = map (\<lambda>k. rand_occ rnd cas k mod length occ_indices) [0..<N];
          occ_indices = map (\<lambda>k. occ_indices ! k) rand_mask;
          occ_coords = map (morton3D_invert ker) occ_indices
      in (indices @ occ_indices, coords @ occ_coords))"

definition partial_sweep ::
    "field \<Rightarrow> kernels \<Rightarrow> draws \<Rightarrow> renderer \<Rightarrow> real list list \<Rightarrow> real list list
      \<Rightarrow> error + real list list" where
  "partial_sweep fld ker rnd st grid tmp_grid =
     foldE (\<lambda>cas tmp_grid.
              if length grid \<le> cas then Inl IndexError
              else if occ_indices_of (grid ! cas) = [] then Inl RuntimeError
              else
                let (indices, coords) = partial_indices ker rnd st (grid ! cas) cas;
                    sigmas = map (\<lambda>k. sample_sigma fld st cas (coords ! k) (part_jitter rnd cas k))
                                 [0..<length coords]
                in grid_put tmp_grid cas indices sigmas)
           [0..<nat (cascade st)] tmp_grid"

text \<open>Lines 677 to 679: the EMA update of the grid by the sampled grid.\<close>

definition ema_update :: "real \<Rightarrow> real list list \<Rightarrow> real list list \<Rightarrow> real list list" where
  "ema_update decay grid tmp_grid =
     map2 (map2 (\<lambda>old new. if old \<ge> 0 \<and> new \<ge> 0 then max (old * decay) new else old))
          grid tmp_grid"

text \<open>
  Lines 680 to 695. The mean of an empty grid is NaN in torch and 0 in HOL.
  \<^verbatim>\<open>int(x / total_step)\<close> truncates towards 0.
\<close>

definition py_int_div :: "int \<Rightarrow> int \<Rightarrow> int" where
  "py_int_div a b = (if 0 \<le> a then a div b else - ((- a) div b))"

definition finish_update :: "kernels \<Rightarrow> renderer \<Rightarrow> extra_state \<Rightarrow> real list list \<Rightarrow> extra_state" where
  "finish_update ker st ex grid =
     (let cells = concat grid;
          mean = sum_list (map (max 0) cells) / real (length cells);
          thresh = min mean (density_thresh st);
          total_step = min 16 (local_step ex)
      in ex\<lparr>density_grid := grid,
            mean_density := mean,
            iter_density := iter_density ex + 1,
            density_bitfield := packbits ker grid thresh (density_bitfield ex),
            mean_count :=
              (if total_step > 0
               then py_int_div (sum_list (map fst (take (nat total_step) (step_counter ex))))
                      total_step
               else mean_count ex),
            local_step := 0\<rparr>)"

text \<open>
  Lines 586 to 669: the freshly sampled grid \<open>tmp_grid\<close>, \<open>-1\<close> wherever the sweep has
  not written. Before 16 updates have completed the sweep is full, afterwards partial.
\<close>

definition sampled_grid ::
    "field \<Rightarrow> kernels \<Rightarrow> draws \<Rightarrow> int \<Rightarrow> renderer \<Rightarrow> extra_state \<Rightarrow> error + real list list" where
  "sampled_grid fld ker rnd S st ex =
     (let tmp_grid = map (map (\<lambda>_. - 1)) (density_grid ex)
      in if iter_density ex < 16
         then (if S \<le> 0 then Inl RuntimeError
               else full_sweep fld ker rnd st (nat S) tmp_grid)
         else partial_sweep fld ker rnd st (density_grid ex) tmp_grid)"

text \<open>
  \<^verbatim>\<open>update_extra_state(decay, S)\<close>. An exception leaves the object as it was: the grid
  is written only after the sweep.
\<close>

definition update_extra_state ::
    "field \<Rightarrow> kernels \<Rightarrow> draws \<Rightarrow> real \<Rightarrow> int \<Rightarrow> renderer \<Rightarrow> error + renderer" where
  "update_extra_state fld ker rnd decay S st =
     (if \<not> cuda_ray st then Inr st
      else case extra st of
        None \<Rightarrow> Inl AttributeError
      | Some ex \<Rightarrow>
          (case sampled_grid fld ker rnd S st ex of
             Inl e \<Rightarrow> Inl e
           | Inr tmp_grid \<Rightarrow>
               Inr (st\<lparr>extra :=
                      Some (finish_update ker st ex
                              (ema_update decay (density_grid ex) tmp_grid))\<rparr>)))"

text \<open>
  The poses of \<^verbatim>\<open>mark_untrained_grid\<close>. A pose is the part of its
  \<open>4 \<times> 4\<close> matrix the method reads: the three rows of \<open>poses[b, :3, :3]\<close> and the
  column \<open>poses[b, :3, 3]\<close>.
\<close>

type_synonym pose = "vec3 \<times> vec3 \<times> vec3 \<times> vec3"

text \<open>Lines 552 to 565 for one point and one pose: whether the camera covers the point.\<close>

definition covers :: "real \<Rightarrow> real \<Rightarrow> real \<Rightarrow> real \<Rightarrow> real \<Rightarrow> pose \<Rightarrow> vec3 \<Rightarrow> bool" where
  "covers fx fy cx cy hgs p x =
     (case p of (r0, r1, r2, t) \<Rightarrow>
        case vsub x t of (v0, v1, v2) \<Rightarrow>
          case vadd (vscale v0 r0) (vadd (vscale v1 r1) (vscale v2 r2)) of (c0, c1, c2) \<Rightarrow>
            let mask_z = c2 > 0;
                mask_x = \<bar>c0\<bar> < cx / fx * c2 + hgs * 2;
                mask_y = \<bar>c1\<bar> < cy / fy * c2 + hgs * 2
            in mask_z \<and> mask_x \<and> mask_y)"

text \<open>
  Lines 547 to 570: the loop over the batches of poses, \<open>S\<close> at a time, adding to the
  row \<open>count[cas]\<close> at \<open>indices\<close> the number of cameras of the batch that cover each
  point. \<open>S\<close> is positive here: the split of line 510 has raised otherwise.
\<close>

function mark_batches ::
    "real \<Rightarrow> real \<Rightarrow> real \<Rightarrow> real \<Rightarrow> real \<Rightarrow> nat \<Rightarrow> pose list \<Rightarrow> nat \<Rightarrow> nat list \<Rightarrow> vec3 list \<Rightarrow> nat
      \<Rightarrow> real list list \<Rightarrow> error + real list list" where
  "mark_batches fx fy cx cy hgs S poses cas indices cas_world_xyzs head count =
     (if head < length poses \<and> 0 < S then
        let tail = min (head + S) (length poses);
            batch = take (tail - head) (drop head poses);
            msk = map (\<lambda>x. real (length (filter (\<lambda>p. covers fx fy cx cy hgs p x) batch)))
                      cas_world_xyzs
        in if length count \<le> cas \<or> list_ex (\<lambda>i. length (count ! cas) \<le> i) indices
           then Inl IndexError
           else case grid_put count cas indices
                       (map2 (\<lambda>i m. count ! cas ! i + m) indices msk) of
                  Inl e \<Rightarrow> Inl e
                | Inr count \<Rightarrow>
                    mark_batches fx fy cx cy hgs S poses cas indices cas_world_xyzs
                      (head + S) count
      else Inr count)"
  by pat_completeness auto
termination
  by (relation "measure (\<lambda>(fx, fy, cx, cy, hgs, S, poses, cas, indices, xyzs, head, count).
                  length poses - head)") auto

declare mark_batches.simps [simp del]

text \<open>Lines 518 to 570: for every cell, the number of cameras that cover it.\<close>

definition visibility_count ::
    "kernels \<Rightarrow> pose list \<Rightarrow> real \<Rightarrow> real \<Rightarrow> real \<Rightarrow> real \<Rightarrow> nat \<Rightarrow> renderer \<Rightarrow> extra_state
      \<Rightarrow> error + real list list" where
  "visibility_count ker poses fx fy cx cy S st ex =
     (let count = map (map (\<lambda>_. 0)) (density_grid ex)
      in foldE (\<lambda>coords count.
                  let indices = map (morton3D ker) coords;
                      world_xyzs = map (cell_xyz st) coords
                  in foldE (\<lambda>cas count.
                              let cas_world_xyzs =
                                    map (vscale (cas_bound st cas - half_grid_size st cas))
                                        world_xyzs
                              in mark_batches fx fy cx cy (half_grid_size st cas) S poses cas
                                   indices cas_world_xyzs 0 count)
                           [0..<nat (cascade st)] count)
               (grid_blocks (grid_size st) S) count)"

text \<open>
  \<^verbatim>\<open>mark_untrained_grid(poses, intrinsic, S)\<close>: \<open>intrinsic\<close> unpacks into four
  numbers, and the cells no camera covers are set to \<open>-1\<close> (lines 572 and 573).
\<close>

definition mark_untrained_grid ::
    "kernels \<Rightarrow> pose list \<Rightarrow> real list \<Rightarrow> int \<Rightarrow> renderer \<Rightarrow> error + renderer" where
  "mark_untrained_grid ker poses intrinsic S st =
     (if \<not> cuda_ray st then Inr st
      else case intrinsic of
        [fx, fy, cx, cy] \<Rightarrow>
          (case extra st of
             None \<Rightarrow> Inl AttributeError
           | Some ex \<Rightarrow>
               if S \<le> 0 then Inl RuntimeError
               else case visibility_count ker poses fx fy cx cy (nat S) st ex of
                      Inl e \<Rightarrow> Inl e
                    | Inr count \<Rightarrow>
                        Inr (st\<lparr>extra := Some (ex\<lparr>density_grid :=
                               map2 (map2 (\<lambda>d c. if c = 0 then - 1 else d))
                                    (density_grid ex) count\<rparr>)\<rparr>))
      | _ \<Rightarrow> Inl ValueError)"

text \<open>
  A sequence of calls of \<^verbatim>\<open>update_extra_state\<close> on one object, each with its own
  arguments, field and draws. The object outlives a call that raises, unchanged.
\<close>

record refresh_call =
  call_field :: field
  call_kernels :: kernels
  call_draws :: draws
  call_decay :: real
  call_S :: int

definition refresh :: "refresh_call \<Rightarrow> renderer \<Rightarrow> renderer" where
  "refresh c st =
     (case update_extra_state (call_field c) (call_kernels c) (call_draws c) (call_decay c)
             (call_S c) st of
        Inl e \<Rightarrow> st
      | Inr st' \<Rightarrow> st')"

fun refreshes :: "refresh_call list \<Rightarrow> renderer \<Rightarrow> renderer" where
  "refreshes [] st = st"
| "refreshes (c # cs) st = refreshes cs (refresh c st)"

text \<open>
  A sequence of maintenance calls on one object, none of them \<^verbatim>\<open>reset_extra_state\<close>:
  calls of \<^verbatim>\<open>update_extra_state\<close> and of \<^verbatim>\<open>mark_untrained_grid\<close>, in any order.
  \<open>update_calls ops\<close> are the calls of \<^verbatim>\<open>update_extra_state\<close> among them.
\<close>

datatype maintenance =
    Update refresh_call
  | Mark kernels "pose list" "real list" int



fun update_calls :: "maintenance list \<Rightarrow> refresh_call list" where
  "update_calls [] = []"
| "update_calls (Update c # ms) = c # update_calls ms"
| "update_calls (Mark ker poses intrinsic S # ms) = update_calls ms"

section \<open>The contracts of the grid, as the spec states them\<close>

text \<open>
  The cells of a grid of size \<open>G\<close>, and what the spec (section 3) asks of the mapping
  from cells to linear indices: a bijection between \<open>[0, G)\<^sup>3\<close> and the indices below
  \<open>G\<^sup>3\<close>, that is, injective on the cells and into the indices.
  The grid of a renderer has one row of \<open>G\<^sup>3\<close> cells per cascade, as \<^verbatim>\<open>__init__\<close>
  allocates it.
\<close>

definition cells :: "nat \<Rightarrow> (nat \<times> nat \<times> nat) set" where
  "cells G = {(x, y, z). x < G \<and> y < G \<and> z < G}"



section \<open>The spec's transmittance recurrence\<close>

text \<open>
  As the spec words it (section 4.3): \<open>Tr\<^sub>0 = 1\<close> and
  \<open>Tr\<^sub>i = Tr\<^sub>i\<^sub>-\<^sub>1 * (1 - alpha\<^sub>i\<^sub>-\<^sub>1 + 1e-15)\<close>. The compositor of the source is
  \<open>weights_of\<close>; this definition is what it is compared with.
\<close>

fun transmittance :: "real list \<Rightarrow> nat \<Rightarrow> real" where
  "transmittance alphas 0 = 1"
| "transmittance alphas (Suc i) = transmittance alphas i * (1 - alphas ! i + trans_eps)"

section \<open>The median, as the spec means it\<close>



section \<open>A small scene for the examples\<close>

text \<open>
  A field of constant density 1 whose colour is white where the mask is set and black
  where it is not, a box that every ray enters at depth 0 and leaves at depth 200, a
  renderer without the acceleration structure, and a ray along the \<open>x\<close> axis.
\<close>

definition toy_field :: field where
  "toy_field =
     \<lparr>density = (\<lambda>x. (1, [])),
      color = (\<lambda>x d m g s. if m then (1, 1, 1) else (0, 0, 0)),
      clip = (\<lambda>g s. [s]),
      clip_feat_dim = 1\<rparr>"

definition toy_kernels :: kernels where
  "toy_kernels =
     \<lparr>near_far_from_aabb = (\<lambda>r box mn. (0, 200)),
      morton3D = (\<lambda>(x, y, z). x + 2 * y + 4 * z),
      morton3D_invert = (\<lambda>i. (i mod 2, (i div 2) mod 2, (i div 4) mod 2)),
      packbits = (\<lambda>grid thresh bits. bits)\<rparr>"

definition toy_renderer :: renderer where
  "toy_renderer =
     \<lparr>bound = 1, cascade = 1, grid_size = 2, density_scale = 1, min_near = 1 / 5,
      density_thresh = 1 / 100, bg_radius = - 1,
      aabb_train = ((- 1000, - 1000, - 1000), (1000, 1000, 1000)),
      aabb_infer = ((- 1000, - 1000, - 1000), (1000, 1000, 1000)),
      cuda_ray = False, training = True, extra = None\<rparr>"

definition toy_ray :: ray where
  "toy_ray = \<lparr>rays_o = (0, 0, 0), rays_d = (1, 0, 0), direction_norms = 1\<rparr>"



text \<open>The renderer \<^verbatim>\<open>NeRFRenderer()\<close> constructs from its default arguments.\<close>

definition default_renderer :: renderer where
  "default_renderer =
     \<lparr>bound = 1, cascade = 1, grid_size = 128, density_scale = 1, min_near = 1 / 5,
      density_thresh = 1 / 100, bg_radius = - 1,
      aabb_train = ((- 1, - 1, - 1), (1, 1, 1)),
      aabb_infer = ((- 1, - 1, - 1), (1, 1, 1)),
      cuda_ray = False, training = True, extra = None\<rparr>"

text \<open>
  A renderer with the acceleration structure on a grid of \<open>2 \<times> 2 \<times> 2\<close> cells and one
  cascade, two of its cells excluded, and the draws and arguments of one refresh of it.
\<close>

definition toy_extra :: extra_state where
  "toy_extra =
     \<lparr>density_grid = [[- 1, 5, - 1, 3, 0, 0, 0, 0]],
      density_bitfield = [0], mean_density = 0, iter_density = 0,
      step_counter = replicate 16 (0, 0), mean_count = 0, local_step = 0\<rparr>"

definition toy_cuda_renderer :: renderer where
  "toy_cuda_renderer = toy_renderer\<lparr>cuda_ray := True, extra := Some toy_extra\<rparr>"

definition toy_draws :: draws where
  "toy_draws =
     \<lparr>full_jitter = (\<lambda>cas c. (1 / 2, 1 / 2, 1 / 2)),
      rand_coords = (\<lambda>cas k. (k, 0, 1)),
      rand_occ = (\<lambda>cas k. k),
      part_jitter = (\<lambda>cas k. (1 / 2, 1 / 2, 1 / 2))\<rparr>"

definition toy_call :: refresh_call where
  "toy_call =
     \<lparr>call_field = toy_field, call_kernels = toy_kernels, call_draws = toy_draws,
      call_decay = 95 / 100, call_S = 128\<rparr>"

section \<open>The pre-mask weights\<close>

text \<open>
  The transmittances in front of each sample: \<open>prefix_prods c qs\<close> lists \<open>c\<close>,
  \<open>c * q\<^sub>0\<close>, \<open>c * q\<^sub>0 * q\<^sub>1\<close>, ... It is what \<^verbatim>\<open>torch.cumprod(alphas_shifted)[..., :-1]\<close>
  computes.
\<close>

fun prefix_prods :: "real \<Rightarrow> real list \<Rightarrow> real list" where
  "prefix_prods c [] = []"
| "prefix_prods c (q # qs) = c # prefix_prods (c * q) qs"

lemma butlast_cumprod_from: "butlast (c # cumprod_from c qs) = prefix_prods c qs"
  by (induction qs arbitrary: c) auto

lemma weights_of_prefix_prods:
  "weights_of as = map2 (*) as (prefix_prods 1 (map (\<lambda>a. 1 - a + trans_eps) as))"
proof (cases as)
  case Nil
  then show ?thesis by (simp add: weights_of_def)
next
  case (Cons a bs)
  have "cumprod (alphas_shifted_of as) = 1 # cumprod_from 1 (map (\<lambda>a. 1 - a + trans_eps) as)"
    by (simp add: Cons alphas_shifted_of_def cumprod_def)
  then show ?thesis
    by (simp only: weights_of_def butlast_cumprod_from)
qed

lemma wsum_identity:
  "sum_list (map2 (*) as (prefix_prods c (map (\<lambda>a. 1 - a + e) as))) =
     c - c * prod_list (map (\<lambda>a. 1 - a + e) as)
       + e * sum_list (prefix_prods c (map (\<lambda>a. 1 - a + e) as))"
proof (induction as arbitrary: c)
  case Nil
  show ?case by simp
next
  case (Cons a as)
  show ?case
    using Cons.IH [of "c * (1 - a + e)"] by (simp add: algebra_simps)
qed

lemma wsum_bound:
  fixes e :: real
  assumes "0 \<le> e" "\<forall>a\<in>set as. 0 \<le> a \<and> a \<le> 1" "0 \<le> c"
  shows "sum_list (map2 (*) as (prefix_prods c (map (\<lambda>a. 1 - a + e) as)))
           \<le> c * (1 + e) ^ (length as - 1)"
  using assms(2,3)
proof (induction as arbitrary: c)
  case Nil
  then show ?case by simp
next
  case (Cons a as)
  show ?case
  proof (cases as)
    case Nil
    have "a * c \<le> c" using Cons.prems by (simp add: mult_left_le_one_le mult.commute)
    with Nil show ?thesis by simp
  next
    case (Cons b bs)
    let ?q = "1 - a + e"
    let ?B = "(1 + e) ^ (length as - 1)"
    let ?S = "sum_list (map2 (*) as (prefix_prods (c * ?q) (map (\<lambda>a. 1 - a + e) as)))"
    have a: "0 \<le> a" "a \<le> 1" using Cons.prems by auto
    have q: "0 \<le> c * ?q" using a assms(1) Cons.prems by simp
    have IH: "?S \<le> (c * ?q) * ?B"
      using Cons.IH [OF _ q] Cons.prems by simp
    have B1: "1 \<le> ?B" using assms(1) by (simp add: one_le_power)
    have "a + ?q * ?B \<le> (1 + e) * ?B"
    proof -
      have "(1 + e) * ?B - ?q * ?B = a * ?B" by (simp add: algebra_simps)
      moreover have "a \<le> a * ?B" using a B1 by (simp add: mult_le_cancel_left1)
      ultimately show ?thesis by linarith
    qed
    then have "c * (a + ?q * ?B) \<le> c * ((1 + e) * ?B)"
      using Cons.prems by (simp add: mult_left_mono)
    then have "a * c + (c * ?q) * ?B \<le> c * ((1 + e) * ?B)"
      by (simp add: algebra_simps)
    with IH have "a * c + ?S \<le> c * ((1 + e) * ?B)" by linarith
    moreover have "(1 + e) * ?B = (1 + e) ^ (length (a # as) - 1)" using Cons by simp
    ultimately show ?thesis by (simp del: power_Suc)
  qed
qed

lemma weights_of_sum_le:
  assumes "\<forall>a\<in>set as. 0 \<le> a \<and> a \<le> 1"
  shows "sum_list (weights_of as) \<le> (1 + trans_eps) ^ (length as - 1)"
proof -
  have "0 \<le> trans_eps" by (simp add: trans_eps_def)
  from wsum_bound [OF this assms, of 1] show ?thesis
    unfolding weights_of_prefix_prods by simp
qed

lemma alpha_range:
  fixes x :: real
  assumes "0 \<le> x"
  shows "0 \<le> 1 - exp (- x) \<and> 1 - exp (- x) \<le> 1"
  using assms by simp

lemma deltas_of_nonneg:
  assumes "sorted z_vals" "0 \<le> sample_dist"
  shows "\<forall>d\<in>set (deltas_of z_vals sample_dist). 0 \<le> d"
proof -
  have "0 \<le> drop 1 z_vals ! i - butlast z_vals ! i" if "i < length z_vals - 1" for i
  proof -
    have "z_vals ! i \<le> z_vals ! Suc i"
      using assms(1) that by (simp add: sorted_iff_nth_mono)
    then show ?thesis using that by (simp add: nth_butlast)
  qed
  then have "\<forall>d\<in>set (map2 (\<lambda>a b. a - b) (drop 1 z_vals) (butlast z_vals)). 0 \<le> d"
    by (auto simp: set_zip)
  then show ?thesis
    using assms(2) by (auto simp: deltas_of_def Let_def dest: in_set_takeD)
qed

lemma alphas_of_range:
  assumes "\<forall>d\<in>set deltas. 0 \<le> d" "0 \<le> dscale" "\<forall>s\<in>set sigma. 0 \<le> s"
  shows "\<forall>a\<in>set (alphas_of deltas dscale sigma). 0 \<le> a \<and> a \<le> 1"
proof
  fix a assume "a \<in> set (alphas_of deltas dscale sigma)"
  then obtain d s where ds: "d \<in> set deltas" "s \<in> set sigma" and a: "a = 1 - exp (- d * dscale * s)"
    by (auto simp: alphas_of_def dest: set_zip_leftD set_zip_rightD)
  have "0 \<le> d * dscale * s" using ds assms by simp
  from alpha_range [OF this] show "0 \<le> a \<and> a \<le> 1" by (simp add: a)
qed

lemma length_deltas_of:
  "length (deltas_of z_vals sample_dist) = (if length z_vals \<le> 1 then 0 else length z_vals)"
  by (cases z_vals; cases "tl z_vals") (auto simp: deltas_of_def Let_def)

lemma length_linspace: "length (linspace a b n) = n"
  by (simp add: linspace_def)

lemma length_z_vals_of: "length (z_vals_of ker st n perturb noise r) = n"
  by (simp add: z_vals_of_def Let_def length_linspace split: prod.splits)


text \<open>
  C1, amended. The weights before masking are \<open>alpha\<^sub>i * Tr\<^sub>i\<close> with
  \<open>Tr\<^sub>i = \<Prod>\<^sub>j\<^sub><\<^sub>i (1 - alpha\<^sub>j + 1e-15)\<close>. For a ray of \<open>num_steps\<close> samples whose depths
  are ordered, with a non-negative sample spacing and density scale and non-negative
  densities, they sum to at most \<open>(1 + 1e-15) ^ (num_steps - 1)\<close>; the \<open>1e-15\<close> added
  to every factor of the transmittance lets the sum pass 1.
\<close>

theorem weights_sum_bound:
  assumes "sorted (z_vals_of ker st num_steps perturb noise r)"
    and "0 \<le> sample_dist_of ker st num_steps r"
    and "0 \<le> density_scale st"
    and "\<forall>x. 0 \<le> fst (density fld x)"
  shows "sum_list (ray_weights fld ker st num_steps perturb noise r)
           \<le> (1 + trans_eps) ^ (num_steps - 1)"
proof -
  let ?z = "z_vals_of ker st num_steps perturb noise r"
  let ?sigma = "map (\<lambda>x. fst (density fld x)) (xyzs_of st r ?z)"
  let ?al = "alphas_of (deltas_of ?z (sample_dist_of ker st num_steps r)) (density_scale st) ?sigma"
  have "\<forall>s\<in>set ?sigma. 0 \<le> s" using assms(4) by auto
  then have "\<forall>a\<in>set ?al. 0 \<le> a \<and> a \<le> 1"
    using alphas_of_range [OF deltas_of_nonneg [OF assms(1,2)] assms(3)] by blast
  then have "sum_list (weights_of ?al) \<le> (1 + trans_eps) ^ (length ?al - 1)"
    by (rule weights_of_sum_le)
  also have "\<dots> \<le> (1 + trans_eps) ^ (num_steps - 1)"
  proof (rule power_increasing)
    show "length ?al - 1 \<le> num_steps - 1"
      by (simp add: alphas_of_def length_deltas_of length_z_vals_of xyzs_of_def)
    show "1 \<le> 1 + trans_eps" by (simp add: trans_eps_def)
  qed
  finally show ?thesis by (simp add: ray_weights_def Let_def)
qed

subsection \<open>The small scene, evaluated\<close>

lemma linspace_2: "linspace a b 2 = [a, b]"
  by (simp add: linspace_def upt_conv_Cons)

lemma toy_z_vals: "z_vals_of toy_kernels toy_renderer 2 False noise toy_ray = [0, 200]"
  by (simp add: z_vals_of_def toy_kernels_def linspace_2)

lemma toy_sample_dist: "sample_dist_of toy_kernels toy_renderer 2 toy_ray = 100"
  by (simp add: sample_dist_of_def toy_kernels_def)

lemma toy_active_aabb:
  "active_aabb toy_renderer = ((- 1000, - 1000, - 1000), (1000, 1000, 1000))"
  by (simp add: active_aabb_def toy_renderer_def)

lemma toy_xyzs: "xyzs_of toy_renderer toy_ray [0, 200] = [(0, 0, 0), (200, 0, 0)]"
  by (simp add: xyzs_of_def toy_active_aabb toy_ray_def)

lemma toy_alphas:
  "alphas_of (deltas_of [0, 200] 100) (density_scale toy_renderer)
     (map (\<lambda>x. fst (density toy_field x)) [(0, 0, 0), (200, 0, 0)]) =
     [1 - exp (- 200), 1 - exp (- 100)]"
  by (simp add: deltas_of_def alphas_of_def toy_renderer_def toy_field_def)

lemma toy_weights:
  "ray_weights toy_field toy_kernels toy_renderer 2 False noise toy_ray =
     [1 - exp (- 200), (1 - exp (- 100)) * (exp (- 200) + trans_eps)]"
  unfolding ray_weights_def Let_def toy_z_vals toy_sample_dist toy_xyzs toy_alphas
  by (simp add: weights_of_def alphas_shifted_of_def cumprod_def)

lemma exp_100_large: "(10::real) ^ 6 \<le> exp 100"
proof -
  have "(2::real) \<le> exp 1" using exp_ge_add_one_self [of "1::real"] by simp
  then have "(2::real) ^ 100 \<le> exp 1 ^ 100" by (rule power_mono) simp
  also have "exp (1::real) ^ 100 = exp 100"
    using exp_of_nat_mult [of 100 "1::real"] by simp
  finally show ?thesis by simp
qed

lemma small_cube:
  fixes e t :: real
  assumes e_pos: "0 < e" and e_small: "e \<le> 1 / 10 ^ 6" and t: "t = 1 / 10 ^ 15"
  shows "1 < (1 - e * e) + (1 - e) * (e * e + t)"
proof -
  have "e * e \<le> (1 / 10 ^ 6) * (1 / 10 ^ 6)"
    using e_small e_pos by (intro mult_mono) simp_all
  then have ee: "e * e \<le> 1 / 10 ^ 12" by simp
  have t_pos: "0 < t" by (simp add: t)
  have "e * (e * e + t) \<le> (1 / 10 ^ 6) * (1 / 10 ^ 12 + t)"
    using e_small ee e_pos t_pos by (intro mult_mono add_mono) simp_all
  also have "\<dots> < t" by (simp add: t)
  finally have "e * (e * e + t) < t" .
  moreover have "(1 - e * e) + (1 - e) * (e * e + t) = 1 + (t - e * (e * e + t))"
    by (simp add: algebra_simps)
  ultimately show ?thesis by linarith
qed

text \<open>
  C1 as stated fails: two samples of density 1, spaced 200 and 100 apart, have weights
  \<open>1 - exp (-200)\<close> and \<open>(1 - exp (-100)) * (exp (-200) + 1e-15)\<close>, whose sum is above 1.
\<close>

theorem weights_sum_exceeds_one:
  "(\<forall>x. 0 \<le> fst (density toy_field x)) \<and>
   \<not> sum_list (ray_weights toy_field toy_kernels toy_renderer 2 False (\<lambda>i. 0) toy_ray) \<le> 1"
proof -
  have "exp (- 100 :: real) = 1 / exp 100"
    by (simp add: exp_minus inverse_eq_divide)
  also have "\<dots> \<le> 1 / 10 ^ 6"
    using exp_100_large by (intro divide_left_mono) simp_all
  finally have small: "exp (- 100 :: real) \<le> 1 / 10 ^ 6" .
  have sq: "exp (- 200 :: real) = exp (- 100) * exp (- 100)"
    by (simp flip: exp_add)
  have "1 < (1 - exp (- 100 :: real) * exp (- 100))
            + (1 - exp (- 100)) * (exp (- 100) * exp (- 100) + trans_eps)"
    by (rule small_cube [OF _ small]) (simp_all add: trans_eps_def)
  then have "1 < sum_list [1 - exp (- 200 :: real), (1 - exp (- 100)) * (exp (- 200) + trans_eps)]"
    unfolding sq by simp
  then have 1: "\<not> sum_list (ray_weights toy_field toy_kernels toy_renderer 2 False (\<lambda>i. 0) toy_ray) \<le> 1"
    unfolding toy_weights by linarith
  have 2: "\<forall>x. 0 \<le> fst (density toy_field x)" by (simp add: toy_field_def)
  from 2 1 show ?thesis by (rule conjI)
qed

text \<open>The bound of C1 at the same ray.\<close>

theorem weights_sum_bound_witness:
  "sorted (z_vals_of toy_kernels toy_renderer 2 False (\<lambda>i. 0) toy_ray) \<and>
   0 \<le> sample_dist_of toy_kernels toy_renderer 2 toy_ray \<and>
   0 \<le> density_scale toy_renderer \<and>
   (\<forall>x. 0 \<le> fst (density toy_field x)) \<and>
   sum_list (ray_weights toy_field toy_kernels toy_renderer 2 False (\<lambda>i. 0) toy_ray)
     \<le> (1 + trans_eps) ^ (2 - 1)"
proof -
  have 1: "sorted (z_vals_of toy_kernels toy_renderer 2 False (\<lambda>i. 0) toy_ray)"
    by (simp add: toy_z_vals)
  have 2: "0 \<le> sample_dist_of toy_kernels toy_renderer 2 toy_ray"
    by (simp add: toy_sample_dist)
  have 3: "0 \<le> density_scale toy_renderer" by (simp add: toy_renderer_def)
  have 4: "\<forall>x. 0 \<le> fst (density toy_field x)" by (simp add: toy_field_def)
  have 5: "sum_list (ray_weights toy_field toy_kernels toy_renderer 2 False (\<lambda>i. 0) toy_ray)
     \<le> (1 + trans_eps) ^ (2 - 1)"
    by (rule weights_sum_bound [OF 1 2 3 4])
  from 1 2 3 4 5 show ?thesis by (intro conjI)
qed

subsection \<open>The recurrences of the compositor, from two samples on\<close>

lemma length_prefix_prods: "length (prefix_prods c qs) = length qs"
  by (induction qs arbitrary: c) auto

lemma prefix_prods_nth:
  "i < length qs \<Longrightarrow> prefix_prods c qs ! i = c * prod_list (take i qs)"
proof (induction qs arbitrary: c i)
  case Nil
  then show ?case by simp
next
  case (Cons q qs)
  then show ?case by (cases i) (auto simp: algebra_simps)
qed

lemma transmittance_prod:
  "i \<le> length alphas \<Longrightarrow>
   transmittance alphas i = prod_list (take i (map (\<lambda>a. 1 - a + trans_eps) alphas))"
proof (induction i)
  case 0
  show ?case by simp
next
  case (Suc i)
  then have "i < length alphas" by simp
  then show ?case
    using Suc by (simp add: take_Suc_conv_app_nth)
qed

lemma weights_of_nth:
  assumes "i < length alphas"
  shows "weights_of alphas ! i = alphas ! i * transmittance alphas i"
  using assms
  by (simp add: weights_of_prefix_prods length_prefix_prods prefix_prods_nth transmittance_prod)

lemma length_weights_of: "length (weights_of alphas) = length alphas"
  by (simp add: weights_of_prefix_prods length_prefix_prods)

lemma deltas_of_nth:
  assumes "2 \<le> length z_vals"
  shows "length (deltas_of z_vals sample_dist) = length z_vals"
    and "\<And>i. i < length z_vals - 1 \<Longrightarrow>
           deltas_of z_vals sample_dist ! i = z_vals ! (i + 1) - z_vals ! i"
    and "deltas_of z_vals sample_dist ! (length z_vals - 1) = sample_dist"
proof -
  define d where "d = map2 (\<lambda>a b. a - b) (drop 1 z_vals) (butlast z_vals)"
  have len: "length d = length z_vals - 1" by (simp add: d_def)
  have "0 < length d" using assms len by simp
  then obtain d0 ds where "d = d0 # ds" by (cases d) auto
  then have tk: "take 1 d = [d0]" by simp
  have eq: "deltas_of z_vals sample_dist = d @ [sample_dist]"
    unfolding deltas_of_def Let_def d_def [symmetric] tk by simp
  show "length (deltas_of z_vals sample_dist) = length z_vals"
    using assms by (simp add: length_deltas_of)
  show "deltas_of z_vals sample_dist ! i = z_vals ! (i + 1) - z_vals ! i"
    if "i < length z_vals - 1" for i
  proof -
    have "(d @ [sample_dist]) ! i = d ! i" using that len by (simp add: nth_append)
    also have "d ! i = z_vals ! (i + 1) - z_vals ! i"
      using that by (simp add: d_def nth_butlast)
    finally show ?thesis by (simp only: eq)
  qed
  have "(d @ [sample_dist]) ! length d = sample_dist" by (rule nth_append_length)
  then show "deltas_of z_vals sample_dist ! (length z_vals - 1) = sample_dist"
    by (simp only: eq len)
qed

lemma alphas_of_nth:
  assumes "i < length deltas" "i < length sigma"
  shows "alphas_of deltas dscale sigma ! i = 1 - exp (- (deltas ! i) * dscale * sigma ! i)"
  using assms by (simp add: alphas_of_def)

text \<open>
  C4 at a single sample per ray (\<^verbatim>\<open>num_steps = 1\<close>): the difference of depths is empty,
  so is \<^verbatim>\<open>ones_like(deltas[..., :1])\<close>, and the ray gets no delta, no alpha and no weight,
  where the claim gives it the delta \<open>sampleSpacing\<close> and the weight \<open>alpha\<^sub>0\<close>.
\<close>

theorem single_sample_has_no_weight:
  "deltas_of [z] sample_dist = [] \<and>
   ray_weights fld ker st 1 perturb noise r = []"
proof -
  have "length (ray_weights fld ker st 1 perturb noise r) = 0"
    by (simp add: ray_weights_def Let_def length_weights_of alphas_of_def length_deltas_of
        length_z_vals_of)
  then show ?thesis by (simp add: deltas_of_def)
qed

section \<open>\<^verbatim>\<open>sample_pdf\<close> on uniform weights\<close>







lemma collect_single: "collect [Inr x] = Inr [x]"
  by simp









section \<open>\<^verbatim>\<open>sample_pdf\<close> on an interval of small span\<close>

lemma collect_map_Inr:
  "collect (map f xs) = Inr ys \<Longrightarrow>
   length ys = length xs \<and> (\<forall>i<length xs. f (xs ! i) = Inr (ys ! i))"
proof (induction xs arbitrary: ys)
  case Nil
  then show ?case by simp
next
  case (Cons x xs)
  then obtain y where y: "f x = Inr y" by (cases "f x") auto
  with Cons.prems obtain ys' where ys': "collect (map f xs) = Inr ys'" "ys = y # ys'"
    by (cases "collect (map f xs)") auto
  from Cons.IH [OF ys'(1)] y ys'(2) show ?case
    by (auto simp: nth_Cons split: nat.splits)
qed

lemma located_interval:
  assumes "cdf \<noteq> []"
    and "cdf ! above_of cdf u - cdf ! below_of cdf u < pdf_eps"
  shows "above_of cdf u = below_of cdf u \<or>
         (0 \<le> u - cdf ! below_of cdf u \<and> u - cdf ! below_of cdf u < pdf_eps)"
proof -
  define i where "i = searchsorted_right cdf u"
  have i_le: "i \<le> length cdf" by (simp add: i_def searchsorted_right_def length_takeWhile_le)
  have lo: "below_of cdf u = i - 1" by (simp add: below_of_def i_def)
  have hi: "above_of cdf u = min (length cdf - 1) i"
    using assms(1) by (cases cdf) (auto simp: above_of_def i_def)
  show ?thesis
  proof (cases "i = 0 \<or> i = length cdf")
    case True
    then show ?thesis using assms(1) by (auto simp: lo hi)
  next
    case False
    then have i: "0 < i" "i < length cdf" using i_le by auto
    then have hi': "above_of cdf u = i" by (simp add: hi)
    have lt: "i - 1 < length (takeWhile (\<lambda>c. c \<le> u) cdf)"
      using i(1) by (simp add: i_def searchsorted_right_def)
    then have "takeWhile (\<lambda>c. c \<le> u) cdf ! (i - 1) \<in> set (takeWhile (\<lambda>c. c \<le> u) cdf)"
      by (rule nth_mem)
    then have "takeWhile (\<lambda>c. c \<le> u) cdf ! (i - 1) \<le> u"
      by (rule set_takeWhileD [THEN conjunct2])
    moreover have "takeWhile (\<lambda>c. c \<le> u) cdf ! (i - 1) = cdf ! (i - 1)"
      using lt by (rule takeWhile_nth)
    ultimately have below: "cdf ! (i - 1) \<le> u" by simp
    have "\<not> cdf ! i \<le> u"
      using i(2) unfolding i_def searchsorted_right_def by (rule nth_length_takeWhile)
    then show ?thesis using below assms(2) by (simp add: lo hi')
  qed
qed

text \<open>
  C6, amended. Where the located CDF interval of a quantile \<open>u\<close> has a span below
  \<open>1e-5\<close>, the denominator is replaced by 1, not the sample by the lower boundary: the
  sample is \<open>bins[below] + (u - cdf[below]) * (bins[above] - bins[below])\<close>, which lies
  within \<open>1e-5 * |bins[above] - bins[below]|\<close> of \<open>bins[below]\<close>.
\<close>

theorem collapsed_interval_sample:
  assumes "sample_pdf bins weights n_samples det rnd = Inr samples"
    and "b < length weights" and "k < nat n_samples"
    and "length (bins ! b) = length (cdf_of (weights ! b))"
    and "cdf = cdf_of (weights ! b)"
    and "u = quantiles (nat n_samples) det (rnd b) ! k"
    and "cdf ! above_of cdf u - cdf ! below_of cdf u < pdf_eps"
  shows "samples ! b ! k =
           bins ! b ! below_of cdf u
             + (u - cdf ! below_of cdf u) * (bins ! b ! above_of cdf u - bins ! b ! below_of cdf u) \<and>
         \<bar>samples ! b ! k - bins ! b ! below_of cdf u\<bar>
           \<le> pdf_eps * \<bar>bins ! b ! above_of cdf u - bins ! b ! below_of cdf u\<bar>"
proof -
  let ?f = "\<lambda>b. sample_pdf_row (bins ! b) (weights ! b) (nat n_samples) det (rnd b)"
  have "collect (map ?f [0..<length weights]) = Inr samples"
    using assms(1) by (simp add: sample_pdf_def split: if_splits)
  from collect_map_Inr [OF this] assms(2)
  have row: "?f b = Inr (samples ! b)" by simp
  have lq: "length (quantiles (nat n_samples) det (rnd b)) = nat n_samples"
    by (simp add: quantiles_def length_linspace)
  then have qne: "quantiles (nat n_samples) det (rnd b) \<noteq> []" using assms(3) by auto
  have cne: "cdf \<noteq> []"
    using row qne by (auto simp: sample_pdf_row_def Let_def assms(5) split: if_splits)
  have "samples ! b = map (invert_cdf (bins ! b) cdf) (quantiles (nat n_samples) det (rnd b))"
    using row assms(4) by (simp add: sample_pdf_row_def Let_def assms(5) split: if_splits)
  then have "samples ! b ! k = invert_cdf (bins ! b) cdf u"
    using assms(3) lq by (simp add: assms(6))
  then have eq: "samples ! b ! k =
           bins ! b ! below_of cdf u
             + (u - cdf ! below_of cdf u) * (bins ! b ! above_of cdf u - bins ! b ! below_of cdf u)"
    using assms(7) by (simp add: invert_cdf_def Let_def)
  have "\<bar>(u - cdf ! below_of cdf u) * (bins ! b ! above_of cdf u - bins ! b ! below_of cdf u)\<bar>
          \<le> pdf_eps * \<bar>bins ! b ! above_of cdf u - bins ! b ! below_of cdf u\<bar>"
    using located_interval [OF cne assms(7)]
  proof
    assume "above_of cdf u = below_of cdf u"
    then show ?thesis by simp
  next
    assume "0 \<le> u - cdf ! below_of cdf u \<and> u - cdf ! below_of cdf u < pdf_eps"
    then have "\<bar>u - cdf ! below_of cdf u\<bar> \<le> pdf_eps" by simp
    then show ?thesis by (simp add: abs_mult mult_right_mono)
  qed
  with eq show ?thesis by simp
qed

lemma toy_cdf: "cdf_of [0, 1] = [0, 1 / 100002, 1]"
  by (simp add: cdf_of_def pdf_of_def cumsum_def pdf_eps_def)

lemma toy_located:
  "below_of [0, 1 / 100002, 1] (1 / 200000) = 0" "above_of [0, 1 / 100002, 1] (1 / 200000) = 1"
  by (simp_all add: below_of_def above_of_def searchsorted_right_def)

lemma toy_resample:
  "sample_pdf [[0, 1, 2]] [[0, 1]] 1 False (\<lambda>b k. 1 / 200000) = Inr [[1 / 200000]]"
  by (simp add: sample_pdf_def sample_pdf_row_def toy_cdf quantiles_def invert_cdf_def
      toy_located pdf_eps_def)

text \<open>
  C6 as stated fails: with weights 0 and 1 the first bin has the CDF span \<open>1/100002\<close>,
  the quantile \<open>1/200000\<close> falls into it, and the sample over the boundaries 0, 1, 2 is
  \<open>1/200000\<close>, not the lower boundary 0.
\<close>

theorem collapsed_interval_not_lower_bound:
  "cdf_of [0, 1] ! above_of (cdf_of [0, 1]) (1 / 200000)
     - cdf_of [0, 1] ! below_of (cdf_of [0, 1]) (1 / 200000) < pdf_eps \<and>
   sample_pdf [[0, 1, 2]] [[0, 1]] 1 False (\<lambda>b k. 1 / 200000) = Inr [[1 / 200000]] \<and>
   [0, 1, 2 :: real] ! below_of (cdf_of [0, 1]) (1 / 200000) = 0"
  by (simp add: toy_cdf toy_located toy_resample pdf_eps_def)


text \<open>The same call, as an instance of the amended C6.\<close>

theorem collapsed_interval_sample_witness:
  "sample_pdf [[0, 1, 2]] [[0, 1]] 1 False (\<lambda>b k. 1 / 200000) = Inr [[1 / 200000]] \<and>
   (0 :: nat) < length [[0, 1 :: real]] \<and> (0 :: nat) < nat 1 \<and>
   length ([[0, 1, 2]] ! 0 :: real list) = length (cdf_of ([[0, 1]] ! 0)) \<and>
   cdf_of ([[0, 1]] ! 0) ! above_of (cdf_of ([[0, 1]] ! 0)) (quantiles (nat 1) False (\<lambda>k. 1 / 200000) ! 0) - cdf_of ([[0, 1]] ! 0) ! below_of (cdf_of ([[0, 1]] ! 0)) (quantiles (nat 1) False (\<lambda>k. 1 / 200000) ! 0) < pdf_eps \<and>
   ([[1 / 200000 :: real]] ! 0 ! 0 =
       [[0, 1, 2]] ! 0 ! below_of (cdf_of ([[0, 1]] ! 0)) (quantiles (nat 1) False (\<lambda>k. 1 / 200000) ! 0)
         + ((quantiles (nat 1) False (\<lambda>k. 1 / 200000) ! 0) - cdf_of ([[0, 1]] ! 0) ! below_of (cdf_of ([[0, 1]] ! 0)) (quantiles (nat 1) False (\<lambda>k. 1 / 200000) ! 0))
           * ([[0, 1, 2]] ! 0 ! above_of (cdf_of ([[0, 1]] ! 0)) (quantiles (nat 1) False (\<lambda>k. 1 / 200000) ! 0) - [[0, 1, 2]] ! 0 ! below_of (cdf_of ([[0, 1]] ! 0)) (quantiles (nat 1) False (\<lambda>k. 1 / 200000) ! 0)) \<and>
     \<bar>[[1 / 200000 :: real]] ! 0 ! 0 - [[0, 1, 2]] ! 0 ! below_of (cdf_of ([[0, 1]] ! 0)) (quantiles (nat 1) False (\<lambda>k. 1 / 200000) ! 0)\<bar>
       \<le> pdf_eps * \<bar>[[0, 1, 2]] ! 0 ! above_of (cdf_of ([[0, 1]] ! 0)) (quantiles (nat 1) False (\<lambda>k. 1 / 200000) ! 0) - [[0, 1, 2]] ! 0 ! below_of (cdf_of ([[0, 1]] ! 0)) (quantiles (nat 1) False (\<lambda>k. 1 / 200000) ! 0)\<bar>)"
proof -
  have q: "(quantiles (nat 1) False (\<lambda>k. 1 / 200000) ! 0) = 1 / 200000"
    by (simp add: quantiles_def)
  have 1: "sample_pdf [[0, 1, 2]] [[0, 1]] 1 False (\<lambda>b k. 1 / 200000) = Inr [[1 / 200000]]"
    by (rule toy_resample)
  have 2: "(0 :: nat) < length [[0, 1 :: real]]" by simp
  have 3: "(0 :: nat) < nat 1" by simp
  have 4: "length ([[0, 1, 2]] ! 0 :: real list) = length (cdf_of ([[0, 1]] ! 0))"
    by (simp add: toy_cdf)
  have 7: "cdf_of ([[0, 1]] ! 0) ! above_of (cdf_of ([[0, 1]] ! 0)) (quantiles (nat 1) False (\<lambda>k. 1 / 200000) ! 0) - cdf_of ([[0, 1]] ! 0) ! below_of (cdf_of ([[0, 1]] ! 0)) (quantiles (nat 1) False (\<lambda>k. 1 / 200000) ! 0) < pdf_eps"
    unfolding q by (simp add: toy_cdf toy_located pdf_eps_def)
  have 8: "[[1 / 200000 :: real]] ! 0 ! 0 =
       [[0, 1, 2]] ! 0 ! below_of (cdf_of ([[0, 1]] ! 0)) (quantiles (nat 1) False (\<lambda>k. 1 / 200000) ! 0)
         + ((quantiles (nat 1) False (\<lambda>k. 1 / 200000) ! 0) - cdf_of ([[0, 1]] ! 0) ! below_of (cdf_of ([[0, 1]] ! 0)) (quantiles (nat 1) False (\<lambda>k. 1 / 200000) ! 0))
           * ([[0, 1, 2]] ! 0 ! above_of (cdf_of ([[0, 1]] ! 0)) (quantiles (nat 1) False (\<lambda>k. 1 / 200000) ! 0) - [[0, 1, 2]] ! 0 ! below_of (cdf_of ([[0, 1]] ! 0)) (quantiles (nat 1) False (\<lambda>k. 1 / 200000) ! 0)) \<and>
     \<bar>[[1 / 200000 :: real]] ! 0 ! 0 - [[0, 1, 2]] ! 0 ! below_of (cdf_of ([[0, 1]] ! 0)) (quantiles (nat 1) False (\<lambda>k. 1 / 200000) ! 0)\<bar>
       \<le> pdf_eps * \<bar>[[0, 1, 2]] ! 0 ! above_of (cdf_of ([[0, 1]] ! 0)) (quantiles (nat 1) False (\<lambda>k. 1 / 200000) ! 0) - [[0, 1, 2]] ! 0 ! below_of (cdf_of ([[0, 1]] ! 0)) (quantiles (nat 1) False (\<lambda>k. 1 / 200000) ! 0)\<bar>"
    by (rule collapsed_interval_sample [OF 1 2 3 4 refl refl 7])
  from 1 2 3 4 7 8 show ?thesis by - ((rule conjI, assumption)+, assumption)
qed

section \<open>Unsupported configurations\<close>



section \<open>Masked colour queries\<close>

















section \<open>Maintenance without the acceleration structure\<close>

text \<open>
  C10. A renderer constructed with \<open>cuda_ray = False\<close> has \<open>cuda_ray\<close> unset, and on a
  renderer with \<open>cuda_ray\<close> unset each of \<^verbatim>\<open>mark_untrained_grid\<close>,
  \<^verbatim>\<open>update_extra_state\<close> and \<^verbatim>\<open>reset_extra_state\<close> returns without an exception and
  leaves the renderer as it was, whatever its arguments.
\<close>

theorem maintenance_without_cuda_ray:
  "(init bnd False dscale mnear dthresh bgr = Inr st \<longrightarrow> \<not> cuda_ray st) \<and>
   (\<not> cuda_ray st \<longrightarrow>
      mark_untrained_grid ker poses intrinsic S st = Inr st \<and>
      update_extra_state fld ker rnd decay S' st = Inr st \<and>
      reset_extra_state st = Inr st)"
  by (auto simp: init_def Let_def mark_untrained_grid_def update_extra_state_def
      reset_extra_state_def split: if_splits)

lemma init_default: "init 1 False 1 (1 / 5) (1 / 100) (- 1) = Inr default_renderer"
  by (simp add: init_def default_renderer_def Let_def)

text \<open>The three entry points on the renderer of the default arguments.\<close>

theorem maintenance_without_cuda_ray_witness:
  "init 1 False 1 (1 / 5) (1 / 100) (- 1) = Inr default_renderer \<and>
   \<not> cuda_ray default_renderer \<and>
   mark_untrained_grid toy_kernels [] [1, 1, 1, 1] 64 default_renderer = Inr default_renderer \<and>
   update_extra_state toy_field toy_kernels
       \<lparr>full_jitter = (\<lambda>cas c. (0, 0, 0)), rand_coords = (\<lambda>cas k. (0, 0, 0)),
        rand_occ = (\<lambda>cas k. 0), part_jitter = (\<lambda>cas k. (0, 0, 0))\<rparr>
       (95 / 100) 128 default_renderer = Inr default_renderer \<and>
   reset_extra_state default_renderer = Inr default_renderer"
proof -
  note t = maintenance_without_cuda_ray [of 1 1 "1 / 5" "1 / 100" "- 1" default_renderer
      toy_kernels "[]" "[1, 1, 1, 1]" 64 toy_field
      "\<lparr>full_jitter = (\<lambda>cas c. (0, 0, 0)), rand_coords = (\<lambda>cas k. (0, 0, 0)),
        rand_occ = (\<lambda>cas k. 0), part_jitter = (\<lambda>cas k. (0, 0, 0))\<rparr>" "95 / 100" 128]
  have 1: "init 1 False 1 (1 / 5) (1 / 100) (- 1) = Inr default_renderer" by (rule init_default)
  with t have 2: "\<not> cuda_ray default_renderer" by blast
  with t have 3: "mark_untrained_grid toy_kernels [] [1, 1, 1, 1] 64 default_renderer = Inr default_renderer \<and>
   update_extra_state toy_field toy_kernels
       \<lparr>full_jitter = (\<lambda>cas c. (0, 0, 0)), rand_coords = (\<lambda>cas k. (0, 0, 0)),
        rand_occ = (\<lambda>cas k. 0), part_jitter = (\<lambda>cas k. (0, 0, 0))\<rparr>
       (95 / 100) 128 default_renderer = Inr default_renderer \<and>
   reset_extra_state default_renderer = Inr default_renderer" by blast
  from 1 2 3 show ?thesis by blast
qed

section \<open>The occupancy grid\<close>

subsection \<open>Shapes\<close>

lemma index_put_length: "index_put row idx vals = Inr row' \<Longrightarrow> length row' = length row"
proof -
  have "length (fold (\<lambda>(i, v) r. r[i := v]) ps row) = length row" for ps
    by (induction ps arbitrary: row) auto
  then show "index_put row idx vals = Inr row' \<Longrightarrow> length row' = length row"
    by (auto simp: index_put_def split: if_splits)
qed

lemma grid_put_shape:
  "grid_put grid cas idx vals = Inr grid' \<Longrightarrow> map length grid' = map length grid"
  by (auto simp: grid_put_def map_update list_update_same_conv dest!: index_put_length
      split: if_splits sum.splits)

lemma foldE_invariant:
  assumes "foldE f xs s = Inr s'" and "P s"
    and "\<And>x s s'. x \<in> set xs \<Longrightarrow> P s \<Longrightarrow> f x s = Inr s' \<Longrightarrow> P s'"
  shows "P s'"
  using assms
proof (induction xs arbitrary: s)
  case Nil
  then show ?case by simp
next
  case (Cons x xs)
  then obtain s1 where s1: "f x s = Inr s1" "foldE f xs s1 = Inr s'"
    by (cases "f x s") auto
  have "P s1" using Cons.prems(3) [OF _ Cons.prems(2) s1(1)] by simp
  then show ?case
  proof (rule Cons.IH [OF s1(2)])
    fix y t t' assume "y \<in> set xs" "P t" "f y t = Inr t'"
    then show "P t'" using Cons.prems(3) [of y t t'] by simp
  qed
qed

lemma full_sweep_shape:
  assumes "full_sweep fld ker rnd st S tmp = Inr tmp'"
  shows "map length tmp' = map length tmp"
proof -
  have inner: "map length g' = map length g"
    if "foldE (\<lambda>cas g. grid_put g cas (idx cas) (vals cas)) cs g = Inr g'" for idx vals cs g g'
    using that
    by (rule foldE_invariant [where P = "\<lambda>g'. map length g' = map length g"])
      (auto dest: grid_put_shape)
  show ?thesis
    using assms unfolding full_sweep_def Let_def
    by (rule foldE_invariant [where P = "\<lambda>g'. map length g' = map length tmp"])
      (auto dest: inner)
qed

lemma partial_sweep_shape:
  assumes "partial_sweep fld ker rnd st grid tmp = Inr tmp'"
  shows "map length tmp' = map length tmp"
  using assms unfolding partial_sweep_def Let_def
  by (rule foldE_invariant [where P = "\<lambda>g'. map length g' = map length tmp"])
    (auto dest: grid_put_shape split: if_splits prod.splits)

lemma sampled_grid_shape:
  assumes "sampled_grid fld ker rnd S st ex = Inr tmp"
  shows "map length tmp = map length (density_grid ex)"
  using assms
  by (auto simp: sampled_grid_def Let_def comp_def split: if_splits
      dest!: full_sweep_shape partial_sweep_shape)

lemma ema_update_cell:
  assumes "map length tmp = map length grid" "c < length grid" "i < length (grid ! c)"
  shows "ema_update decay grid tmp ! c ! i =
     (if grid ! c ! i \<ge> 0 \<and> tmp ! c ! i \<ge> 0 then max (grid ! c ! i * decay) (tmp ! c ! i)
      else grid ! c ! i)"
proof -
  have l: "length tmp = length grid" using assms(1) by (metis length_map)
  have "length (tmp ! c) = length (grid ! c)"
    using assms(1,2) l by (metis nth_map)
  then show ?thesis using assms(2,3) l by (simp add: ema_update_def)
qed

lemma ema_update_shape:
  assumes "map length tmp = map length grid"
  shows "map length (ema_update decay grid tmp) = map length grid"
proof -
  have l: "length tmp = length grid" using assms(1) by (metis length_map)
  show ?thesis
  proof (rule nth_equalityI)
    show "length (map length (ema_update decay grid tmp)) = length (map length grid)"
      using l by (simp add: ema_update_def)
  next
    fix c assume "c < length (map length (ema_update decay grid tmp))"
    then have c: "c < length grid" using l by (simp add: ema_update_def)
    then have "length (tmp ! c) = length (grid ! c)" using assms l by (metis nth_map)
    then show "map length (ema_update decay grid tmp) ! c = map length grid ! c"
      using c l by (simp add: ema_update_def)
  qed
qed

subsection \<open>Excluded cells\<close>

lemma update_extra_state_Inr:
  assumes "update_extra_state fld ker rnd decay S st = Inr st'" "cuda_ray st" "extra st = Some ex"
  shows "\<exists>tmp. sampled_grid fld ker rnd S st ex = Inr tmp \<and>
           st' = st\<lparr>extra := Some (finish_update ker st ex
                                     (ema_update decay (density_grid ex) tmp))\<rparr>"
  using assms by (auto simp: update_extra_state_def split: sum.splits)

lemma density_grid_finish_update [simp]:
  "density_grid (finish_update ker st ex grid) = grid"
  by (simp add: finish_update_def Let_def)

lemma iter_density_finish_update [simp]:
  "iter_density (finish_update ker st ex grid) = iter_density ex + 1"
  by (simp add: finish_update_def Let_def)

lemma refresh_cases:
  assumes "extra st = Some ex"
  obtains (unchanged) "refresh c st = st"
  | (updated) tmp where "cuda_ray st"
      "sampled_grid (call_field c) (call_kernels c) (call_draws c) (call_S c) st ex = Inr tmp"
      "refresh c st = st\<lparr>extra := Some (finish_update (call_kernels c) st ex
                          (ema_update (call_decay c) (density_grid ex) tmp))\<rparr>"
proof (cases "update_extra_state (call_field c) (call_kernels c) (call_draws c) (call_decay c)
             (call_S c) st")
  case (Inl e)
  then have "refresh c st = st" by (simp add: refresh_def)
  then show ?thesis by (rule unchanged)
next
  case (Inr st')
  show ?thesis
  proof (cases "cuda_ray st")
    case False
    then have "refresh c st = st" by (simp add: refresh_def update_extra_state_def)
    then show ?thesis by (rule unchanged)
  next
    case True
    from update_extra_state_Inr [OF Inr True assms] obtain tmp where
      "sampled_grid (call_field c) (call_kernels c) (call_draws c) (call_S c) st ex = Inr tmp"
      "st' = st\<lparr>extra := Some (finish_update (call_kernels c) st ex
                          (ema_update (call_decay c) (density_grid ex) tmp))\<rparr>"
      by blast
    then show ?thesis using Inr True by (intro updated) (simp_all add: refresh_def)
  qed
qed

lemma refreshes_keep_excluded:
  assumes "extra st = Some ex" "c < length (density_grid ex)" "i < length (density_grid ex ! c)"
    and "density_grid ex ! c ! i = - 1"
  shows "\<exists>ex'. extra (refreshes calls st) = Some ex' \<and>
           map length (density_grid ex') = map length (density_grid ex) \<and>
           density_grid ex' ! c ! i = - 1"
  using assms
proof (induction calls arbitrary: st ex)
  case Nil
  then show ?case by simp
next
  case (Cons call calls)
  show ?case
  proof (rule refresh_cases [OF Cons.prems(1), of call])
    assume "refresh call st = st"
    then show ?thesis using Cons.IH [OF Cons.prems] by simp
  next
    fix tmp
    assume updated: "cuda_ray st"
      "sampled_grid (call_field call) (call_kernels call) (call_draws call) (call_S call) st ex
         = Inr tmp"
      "refresh call st = st\<lparr>extra := Some (finish_update (call_kernels call) st ex
                          (ema_update (call_decay call) (density_grid ex) tmp))\<rparr>"
    let ?g = "ema_update (call_decay call) (density_grid ex) tmp"
    let ?ex = "finish_update (call_kernels call) st ex ?g"
    have sh: "map length tmp = map length (density_grid ex)"
      using updated(2) by (rule sampled_grid_shape)
    have sh': "map length ?g = map length (density_grid ex)"
      by (rule ema_update_shape [OF sh])
    have cell: "?g ! c ! i = - 1"
      using ema_update_cell [OF sh Cons.prems(2,3)] Cons.prems(4) by simp
    have 1: "extra (refresh call st) = Some ?ex" by (simp add: updated(3))
    have 2: "c < length (density_grid ?ex)"
      using sh' Cons.prems(2) by (metis density_grid_finish_update length_map)
    have 3: "i < length (density_grid ?ex ! c)"
      using sh' Cons.prems(2,3) 2 by (metis density_grid_finish_update nth_map)
    have 4: "density_grid ?ex ! c ! i = - 1" using cell by simp
    from Cons.IH [OF 1 2 3 4] sh' show ?thesis by simp
  qed
qed

lemma mark_untrained_grid_Inr:
  assumes "mark_untrained_grid ker poses intrinsic S st = Inr st'" "cuda_ray st"
  shows "\<exists>ex (count :: real list list). extra st = Some ex \<and>
           st' = st\<lparr>extra := Some (ex\<lparr>density_grid :=
                   map2 (map2 (\<lambda>d c. if c = 0 then - 1 else d)) (density_grid ex) count\<rparr>)\<rparr>"
proof -
  from assms obtain fx fy cx cy where intr: "intrinsic = [fx, fy, cx, cy]"
    by (auto simp: mark_untrained_grid_def split: list.splits)
  from assms intr obtain ex where ex: "extra st = Some ex"
    by (auto simp: mark_untrained_grid_def split: option.splits)
  from assms intr ex have S: "\<not> S \<le> 0"
    by (auto simp: mark_untrained_grid_def split: if_splits)
  show ?thesis
  proof (cases "visibility_count ker poses fx fy cx cy (nat S) st ex")
    case (Inl e)
    then show ?thesis using assms intr ex S by (simp add: mark_untrained_grid_def)
  next
    case (Inr count)
    then have st': "st' = st\<lparr>extra := Some (ex\<lparr>density_grid :=
                   map2 (map2 (\<lambda>d c. if c = 0 then - 1 else d)) (density_grid ex) count\<rparr>)\<rparr>"
      using assms intr ex S by (simp add: mark_untrained_grid_def)
    show ?thesis
      using ex st' by blast
  qed
qed

text \<open>
  C2. For a cell \<open>(c, i)\<close> of the grid of a renderer: an update that returns writes the
  cell with \<open>max (old * decay) sample\<close> when the old value and the sampled value are both
  non-negative, and leaves it as it was otherwise; the grid \<^verbatim>\<open>mark_untrained_grid\<close>
  leaves is the old one with \<open>-1\<close> in the cells no camera covers; a cell that is \<open>-1\<close>
  is \<open>-1\<close> after any sequence of calls of \<^verbatim>\<open>update_extra_state\<close>; and the example of
  the spec.
\<close>

theorem excluded_cells_stay_excluded:
  assumes "extra st = Some ex" and "c < length (density_grid ex)"
    and "i < length (density_grid ex ! c)"
  shows "(\<forall>st'. cuda_ray st \<and> update_extra_state fld ker rnd decay S st = Inr st' \<longrightarrow>
            (\<exists>tmp ex'. sampled_grid fld ker rnd S st ex = Inr tmp \<and> extra st' = Some ex' \<and>
               density_grid ex' ! c ! i =
                 (if density_grid ex ! c ! i \<ge> 0 \<and> tmp ! c ! i \<ge> 0
                  then max (density_grid ex ! c ! i * decay) (tmp ! c ! i)
                  else density_grid ex ! c ! i))) \<and>
         (\<forall>st0 ex0. cuda_ray st0 \<and> extra st0 = Some ex0 \<and>
              mark_untrained_grid ker' poses intrinsic S' st0 = Inr st \<longrightarrow>
            (\<exists>count :: real list list. density_grid ex =
               map2 (map2 (\<lambda>d c. if c = 0 then - 1 else d)) (density_grid ex0) count)) \<and>
         (density_grid ex ! c ! i = - 1 \<longrightarrow>
            (\<exists>ex'. extra (refreshes calls st) = Some ex' \<and> density_grid ex' ! c ! i = - 1)) \<and>
         ema_update (95 / 100) [[- 1, 5, - 1, 3]] [[- 1, - 1, 4, 7]] = [[- 1, 5, - 1, 7]]"
proof (intro conjI allI impI)
  fix st' assume a: "cuda_ray st \<and> update_extra_state fld ker rnd decay S st = Inr st'"
  from update_extra_state_Inr [OF _ _ assms(1)] a obtain tmp where
    tmp: "sampled_grid fld ker rnd S st ex = Inr tmp"
      "st' = st\<lparr>extra := Some (finish_update ker st ex (ema_update decay (density_grid ex) tmp))\<rparr>"
    by blast
  have "ema_update decay (density_grid ex) tmp ! c ! i =
      (if density_grid ex ! c ! i \<ge> 0 \<and> tmp ! c ! i \<ge> 0
       then max (density_grid ex ! c ! i * decay) (tmp ! c ! i)
       else density_grid ex ! c ! i)"
    by (rule ema_update_cell [OF sampled_grid_shape [OF tmp(1)] assms(2,3)])
  then show "\<exists>tmp ex'. sampled_grid fld ker rnd S st ex = Inr tmp \<and> extra st' = Some ex' \<and>
               density_grid ex' ! c ! i =
                 (if density_grid ex ! c ! i \<ge> 0 \<and> tmp ! c ! i \<ge> 0
                  then max (density_grid ex ! c ! i * decay) (tmp ! c ! i)
                  else density_grid ex ! c ! i)"
    using tmp by auto
next
  fix st0 ex0
  assume a: "cuda_ray st0 \<and> extra st0 = Some ex0 \<and>
              mark_untrained_grid ker' poses intrinsic S' st0 = Inr st"
  then obtain ex1 and count :: "real list list" where
    c: "extra st0 = Some ex1"
       "st = st0\<lparr>extra := Some (ex1\<lparr>density_grid :=
                   map2 (map2 (\<lambda>d c. if c = 0 then - 1 else d)) (density_grid ex1) count\<rparr>)\<rparr>"
    using mark_untrained_grid_Inr [of ker' poses intrinsic S' st0 st] by blast
  have "ex1 = ex0" using a c(1) by simp
  then have "Some ex = Some (ex0\<lparr>density_grid :=
                   map2 (map2 (\<lambda>d c. if c = 0 then - 1 else d)) (density_grid ex0) count\<rparr>)"
    using c(2) assms(1) by simp
  then have "density_grid ex =
               map2 (map2 (\<lambda>d c. if c = 0 then - 1 else d)) (density_grid ex0) count"
    by auto
  then show "\<exists>count :: real list list. density_grid ex =
               map2 (map2 (\<lambda>d c. if c = 0 then - 1 else d)) (density_grid ex0) count"
    by (rule exI [where x = count])
next
  assume "density_grid ex ! c ! i = - 1"
  from refreshes_keep_excluded [OF assms this, of calls]
  show "\<exists>ex'. extra (refreshes calls st) = Some ex' \<and> density_grid ex' ! c ! i = - 1"
    by blast
next
  show "ema_update (95 / 100) [[- 1, 5, - 1, 3]] [[- 1, - 1, 4, 7]] = [[- 1, 5, - 1, 7]]"
    by (simp add: ema_update_def)
qed

subsection \<open>The small grid, refreshed\<close>

lemma grid_blocks_toy: "grid_blocks 2 128 =
  [[(0, 0, 0), (0, 0, 1), (0, 1, 0), (0, 1, 1), (1, 0, 0), (1, 0, 1), (1, 1, 0), (1, 1, 1)]]"
  by (simp add: grid_blocks_def split_size.simps meshgrid_coords_def upt_conv_Cons)

lemma toy_sigma: "sample_sigma toy_field toy_cuda_renderer cas c rand = 1"
  by (simp add: sample_sigma_def toy_field_def toy_cuda_renderer_def toy_renderer_def)

lemma toy_sampled:
  "sampled_grid toy_field toy_kernels toy_draws 128 toy_cuda_renderer toy_extra
     = Inr [[1, 1, 1, 1, 1, 1, 1, 1]]"
proof -
  have g: "grid_size toy_cuda_renderer = 2" "nat (cascade toy_cuda_renderer) = 1"
    by (simp_all add: toy_cuda_renderer_def toy_renderer_def)
  show ?thesis
    unfolding sampled_grid_def full_sweep_def Let_def g toy_sigma
    by (simp add: toy_extra_def grid_blocks_toy toy_kernels_def grid_put_def index_put_def)
qed


lemma toy_update:
  "update_extra_state toy_field toy_kernels toy_draws (95 / 100) 128 toy_cuda_renderer =
     Inr (toy_cuda_renderer\<lparr>extra := Some (finish_update toy_kernels toy_cuda_renderer toy_extra
            [[- 1, 19 / 4, - 1, 57 / 20, 1, 1, 1, 1]])\<rparr>)"
proof -
  have "ema_update (95 / 100) (density_grid toy_extra) [[1, 1, 1, 1, 1, 1, 1, 1]]
          = [[- 1, 19 / 4, - 1, 57 / 20, 1, 1, 1, 1]]"
    by (simp add: ema_update_def toy_extra_def)
  moreover have "cuda_ray toy_cuda_renderer" "extra toy_cuda_renderer = Some toy_extra"
    by (simp_all add: toy_cuda_renderer_def)
  ultimately show ?thesis
    by (simp add: update_extra_state_def toy_sampled)
qed

text \<open>
  The excluded cell \<open>(0, 0)\<close> of the small grid, through one update and through two
  refreshes.
\<close>

theorem excluded_cells_stay_excluded_witness:
  "extra toy_cuda_renderer = Some toy_extra \<and>
   (0 :: nat) < length (density_grid toy_extra) \<and>
   (0 :: nat) < length (density_grid toy_extra ! 0) \<and>
   density_grid toy_extra ! 0 ! 0 = - 1 \<and>
   cuda_ray toy_cuda_renderer \<and>
   (\<exists>tmp ex'. sampled_grid toy_field toy_kernels toy_draws 128 toy_cuda_renderer toy_extra = Inr tmp \<and>
      extra (toy_cuda_renderer\<lparr>extra := Some (finish_update toy_kernels toy_cuda_renderer toy_extra
            [[- 1, 19 / 4, - 1, 57 / 20, 1, 1, 1, 1]])\<rparr>) = Some ex' \<and>
      density_grid ex' ! 0 ! 0 =
        (if density_grid toy_extra ! 0 ! 0 \<ge> 0 \<and> tmp ! 0 ! 0 \<ge> 0
         then max (density_grid toy_extra ! 0 ! 0 * (95 / 100)) (tmp ! 0 ! 0)
         else density_grid toy_extra ! 0 ! 0)) \<and>
   (\<exists>ex'. extra (refreshes [toy_call, toy_call] toy_cuda_renderer) = Some ex' \<and>
      density_grid ex' ! 0 ! 0 = - 1) \<and>
   ema_update (95 / 100) [[- 1, 5, - 1, 3]] [[- 1, - 1, 4, 7]] = [[- 1, 5, - 1, 7]]"
proof -
  have 1: "extra toy_cuda_renderer = Some toy_extra" by (simp add: toy_cuda_renderer_def)
  have 2: "(0 :: nat) < length (density_grid toy_extra)" by (simp add: toy_extra_def)
  have 3: "(0 :: nat) < length (density_grid toy_extra ! 0)" by (simp add: toy_extra_def)
  have 4: "density_grid toy_extra ! 0 ! 0 = - 1" by (simp add: toy_extra_def)
  have 5: "cuda_ray toy_cuda_renderer" by (simp add: toy_cuda_renderer_def)
  note t = excluded_cells_stay_excluded [OF 1 2 3, of toy_field toy_kernels toy_draws "95 / 100" 128
      toy_kernels "[]" "[]" 0 "[toy_call, toy_call]"]
  from t 5 toy_update have 6: "\<exists>tmp ex'. sampled_grid toy_field toy_kernels toy_draws 128 toy_cuda_renderer toy_extra = Inr tmp \<and>
      extra (toy_cuda_renderer\<lparr>extra := Some (finish_update toy_kernels toy_cuda_renderer toy_extra
            [[- 1, 19 / 4, - 1, 57 / 20, 1, 1, 1, 1]])\<rparr>) = Some ex' \<and>
      density_grid ex' ! 0 ! 0 =
        (if density_grid toy_extra ! 0 ! 0 \<ge> 0 \<and> tmp ! 0 ! 0 \<ge> 0
         then max (density_grid toy_extra ! 0 ! 0 * (95 / 100)) (tmp ! 0 ! 0)
         else density_grid toy_extra ! 0 ! 0)"
    by blast
  from t 4 have 7: "\<exists>ex'. extra (refreshes [toy_call, toy_call] toy_cuda_renderer) = Some ex' \<and>
      density_grid ex' ! 0 ! 0 = - 1"
    by blast
  from t have 8: "ema_update (95 / 100) [[- 1, 5, - 1, 3]] [[- 1, - 1, 4, 7]] = [[- 1, 5, - 1, 7]]"
    by blast
  from 1 2 3 4 5 6 7 8 show ?thesis by (intro conjI)
qed

subsection \<open>The full sweep writes every cell\<close>











subsection \<open>The partial sweep\<close>










subsection \<open>The number of completed updates\<close>










subsection \<open>The schedule of the sweeps\<close>


lemma update_calls_append: "update_calls (a @ b) = update_calls a @ update_calls b"
proof (induction a)
  case Nil
  then show ?case by simp
next
  case (Cons m a)
  then show ?case by (cases m) simp_all
qed





end
